theory Spec2Isabelle
  imports Complex_Main
begin

section \<open>Dates\<close>

text \<open>
  A JavaScript \<open>Date\<close> is a number of milliseconds. The model reads it on the local
  clock of a zone with a fixed offset (no daylight-saving jumps), which is where
  \<open>getHours\<close>, \<open>setHours\<close> and \<open>setDate\<close> are plain arithmetic: day \<open>t div 86400000\<close>,
  hour of day \<open>(t mod 86400000) div 3600000\<close>. Differences of two dates do not depend on
  the offset.
\<close>

type_synonym date = int

type_synonym oid = nat

definition getHours :: "date \<Rightarrow> int" where
  "getHours t = (t mod 86400000) div 3600000"

text \<open>\<open>d.setHours(h)\<close>: the hour field becomes \<open>h\<close>, minutes, seconds and milliseconds
  stay, and an \<open>h\<close> outside 0..23 carries into the day.\<close>

definition setHours :: "date \<Rightarrow> int \<Rightarrow> date" where
  "setHours t h = t + (h - getHours t) * 3600000"

text \<open>\<open>d.setHours(h, 0, 0, 0)\<close>: \<open>h\<close> o'clock sharp on the day of \<open>d\<close>.\<close>

definition setHoursSharp :: "date \<Rightarrow> int \<Rightarrow> date" where
  "setHoursSharp t h = (t div 86400000) * 86400000 + h * 3600000"

text \<open>\<open>d.setDate(d.getDate() + n)\<close>.\<close>

definition addDays :: "date \<Rightarrow> int \<Rightarrow> date" where
  "addDays t n = t + n * 86400000"

section \<open>SLA calculator\<close>

record SLAType =
  expected_hours :: "int option"

record DispatchHours =
  dispatch_start :: int
  dispatch_end :: int

record DealerSLA =
  is_active :: bool
  sla_type :: "SLAType option"
  dispatch_hours :: "DispatchHours option"

text \<open>\<open>calculateExpectedFulfillmentTime\<close> of \<open>utils/slaViolationUtils.js\<close>. A missing or
  zero \<open>expected_hours\<close> is falsy and adds nothing.\<close>

definition calculateExpectedFulfillmentTime :: "date \<Rightarrow> DealerSLA option \<Rightarrow> date option" where
  "calculateExpectedFulfillmentTime orderDate dealerSLA =
     (case dealerSLA of
        None \<Rightarrow> None
      | Some sla \<Rightarrow>
          (case sla_type sla of
             None \<Rightarrow> None
           | Some ty \<Rightarrow>
               (let expectedTime =
                      (case expected_hours ty of
                         None \<Rightarrow> orderDate
                       | Some h \<Rightarrow>
                           if h = 0 then orderDate
                           else setHours orderDate (getHours orderDate + h))
                in Some
                     (case dispatch_hours sla of
                        None \<Rightarrow> expectedTime
                      | Some dh \<Rightarrow>
                          if getHours expectedTime < dispatch_start dh
                          then setHoursSharp expectedTime (dispatch_start dh)
                          else if getHours expectedTime > dispatch_end dh
                          then setHoursSharp (addDays expectedTime 1) (dispatch_start dh)
                          else expectedTime))))"

text \<open>The method of the same name on the SLA middleware object has the same text.\<close>

definition middleware_calculateExpectedFulfillmentTime ::
  "date \<Rightarrow> DealerSLA option \<Rightarrow> date option" where
  "middleware_calculateExpectedFulfillmentTime orderDate dealerSLA =
     (case dealerSLA of
        None \<Rightarrow> None
      | Some sla \<Rightarrow>
          (case sla_type sla of
             None \<Rightarrow> None
           | Some ty \<Rightarrow>
               (let expectedTime =
                      (case expected_hours ty of
                         None \<Rightarrow> orderDate
                       | Some h \<Rightarrow>
                           if h = 0 then orderDate
                           else setHours orderDate (getHours orderDate + h))
                in Some
                     (case dispatch_hours sla of
                        None \<Rightarrow> expectedTime
                      | Some dh \<Rightarrow>
                          if getHours expectedTime < dispatch_start dh
                          then setHoursSharp expectedTime (dispatch_start dh)
                          else if getHours expectedTime > dispatch_end dh
                          then setHoursSharp (addDays expectedTime 1) (dispatch_start dh)
                          else expectedTime))))"

text \<open>The hours an SLA type adds.\<close>

definition hoursAdded :: "SLAType \<Rightarrow> int" where
  "hoursAdded ty = (case expected_hours ty of None \<Rightarrow> 0 | Some h \<Rightarrow> h)"

section \<open>Orders\<close>

text \<open>
  The fields of an order document that the return controller and the SLA engine read or
  write. An \<open>ObjectId\<close> is a number; an absent or null field is \<open>None\<close>.
\<close>

record DealerMapping =
  dm_sku :: "string option"
  dealerId :: "oid option"

record SkuItem =
  sku :: string
  quantity :: int
  selling_price :: real
  dealerMapped :: "DealerMapping list"
  tracking_status :: "string option"
  packedAt :: "date option"
  deliveredAt :: "date option"
  return_id :: "oid option"

record SLAInfo =
  actualFulfillmentTime :: "date option"
  isSLAMet :: "bool option"
  violationMinutes :: "int option"
  expectedFulfillmentTime :: "date option"

record Order =
  order_oid :: oid
  customer_userId :: "oid option"
  skus :: "SkuItem list"
  dealerMapping :: "DealerMapping list"
  orderDate :: "date option"
  createdAt :: "date option"
  payment_ref :: "oid option"
  slaInfo :: SLAInfo

section \<open>SLA violation engine\<close>

text \<open>\<open>Math.round\<close>: to the nearest integer, a half upwards. Numbers that are not
  dates or counts (prices, refund amounts) are exact reals; JavaScript doubles give the
  same rounded minor units for amounts with at most two decimals.\<close>

definition Math_round :: "real \<Rightarrow> int" where
  "Math_round x = \<lfloor>x + 1 / 2\<rfloor>"

text \<open>The violation object built by the checks; the free-text \<open>notes\<close> field is left
  out. The order-level aggregate carries no \<open>sku\<close>.\<close>

record ViolationData =
  dealer_id :: oid
  order_id :: oid
  v_sku :: "string option"
  expected_fulfillment_time :: date
  actual_fulfillment_time :: date
  violation_minutes :: int

text \<open>A document of the \<open>SLAViolation\<close> collection.\<close>

record SLAViolation = ViolationData +
  resolved :: bool

text \<open>\<open>a || b\<close> on values that are truthy whenever present.\<close>

definition orElse :: "'a option \<Rightarrow> 'a option \<Rightarrow> 'a option" where
  "orElse a b = (case a of Some x \<Rightarrow> Some x | None \<Rightarrow> b)"

text \<open>
  The dealer of a SKU in \<open>checkSKUSLAViolation\<close>:
  \<open>skuItem.dealerMapped?.[0]?.dealerId || order.dealerMapping.find(dm => dm.sku === sku)?.dealerId
  || order.dealerMapping[0]?.dealerId\<close>.
\<close>

definition resolveDealerId :: "Order \<Rightarrow> SkuItem \<Rightarrow> string \<Rightarrow> oid option" where
  "resolveDealerId order skuItem s =
     orElse (case dealerMapped skuItem of [] \<Rightarrow> None | dm # _ \<Rightarrow> dealerId dm)
       (orElse
          (case find (\<lambda>dm. dm_sku dm = Some s) (dealerMapping order) of
             None \<Rightarrow> None
           | Some dm \<Rightarrow> dealerId dm)
          (case dealerMapping order of [] \<Rightarrow> None | dm # _ \<Rightarrow> dealerId dm))"

text \<open>\<open>order.orderDate || order.createdAt || new Date()\<close>.\<close>

definition orderDateOf :: "date \<Rightarrow> Order \<Rightarrow> date" where
  "orderDateOf now order =
     (case orderDate order of
        Some d \<Rightarrow> d
      | None \<Rightarrow> (case createdAt order of Some d \<Rightarrow> d | None \<Rightarrow> now))"

text \<open>
  \<open>checkSKUSLAViolation\<close>. The result object \<open>{hasViolation, violation}\<close> is the option:
  \<open>hasViolation\<close> is true exactly when \<open>violation\<close> is not null. \<open>slaOf\<close> is the lookup
  \<open>DealerSLA.findOne({dealer_id}).populate('sla_type')\<close> and \<open>now\<close> the clock.
\<close>

definition checkSKUSLAViolation ::
  "(oid \<Rightarrow> DealerSLA option) \<Rightarrow> date \<Rightarrow> Order \<Rightarrow> string \<Rightarrow> date \<Rightarrow> ViolationData option" where
  "checkSKUSLAViolation slaOf now order s packedAtDate =
     (if dealerMapping order = [] then None
      else case find (\<lambda>i. sku i = s) (skus order) of
        None \<Rightarrow> None
      | Some skuItem \<Rightarrow>
          (case resolveDealerId order skuItem s of
             None \<Rightarrow> None
           | Some d \<Rightarrow>
               (case slaOf d of
                  None \<Rightarrow> None
                | Some dealerSLA \<Rightarrow>
                    if \<not> is_active dealerSLA then None
                    else case calculateExpectedFulfillmentTime (orderDateOf now order)
                                (Some dealerSLA) of
                      None \<Rightarrow> None
                    | Some expected \<Rightarrow>
                        (let minutes = Math_round (real_of_int (packedAtDate - expected) / 60000)
                         in if minutes > 0
                            then Some \<lparr>dealer_id = d, order_id = order_oid order,
                                   v_sku = Some s,
                                   expected_fulfillment_time = expected,
                                   actual_fulfillment_time = packedAtDate,
                                   violation_minutes = minutes\<rparr>
                            else None))))"

text \<open>The result of \<open>checkSLAViolationOnPacking\<close>; \<open>allSkusViolated\<close> is absent on the
  early returns.\<close>

record PackingCheck =
  hasViolation :: bool
  violation :: "ViolationData option"
  skuViolations :: "(string \<times> ViolationData) list"
  allSkusViolated :: "bool option"

definition emptyCheck :: PackingCheck where
  "emptyCheck = \<lparr>hasViolation = False, violation = None, skuViolations = [],
     allSkusViolated = None\<rparr>"

definition isPacked :: "SkuItem \<Rightarrow> bool" where
  "isPacked s = (tracking_status s = Some ''Packed'' \<and> packedAt s \<noteq> None)"

text \<open>\<open>skuItem.tracking_info?.timestamps?.packedAt || packedAt || new Date()\<close>.\<close>

definition skuPackedAt :: "date \<Rightarrow> date option \<Rightarrow> SkuItem \<Rightarrow> date" where
  "skuPackedAt now packedAtArg skuItem =
     (case packedAt skuItem of
        Some p \<Rightarrow> p
      | None \<Rightarrow> (case packedAtArg of Some p \<Rightarrow> p | None \<Rightarrow> now))"

text \<open>The loop over the packed SKUs, on \<open>(skuViolations, allSkusViolated, hasAnyViolation)\<close>.\<close>

fun checkPackedSkus ::
  "(oid \<Rightarrow> DealerSLA option) \<Rightarrow> date \<Rightarrow> Order \<Rightarrow> date option \<Rightarrow> SkuItem list \<Rightarrow>
   (string \<times> ViolationData) list \<times> bool \<times> bool \<Rightarrow> (string \<times> ViolationData) list \<times> bool \<times> bool" where
  "checkPackedSkus slaOf now order packedAtArg [] st = st"
| "checkPackedSkus slaOf now order packedAtArg (skuItem # rest) (svs, allV, anyV) =
     (case checkSKUSLAViolation slaOf now order (sku skuItem)
             (skuPackedAt now packedAtArg skuItem) of
        Some v \<Rightarrow>
          checkPackedSkus slaOf now order packedAtArg rest (svs @ [(sku skuItem, v)], allV, True)
      | None \<Rightarrow> checkPackedSkus slaOf now order packedAtArg rest (svs, False, anyV))"

text \<open>
  The reduction that picks the aggregate: the accumulator \<open>max\<close> is an entry
  \<open>{sku, violation}\<close>, so \<open>max?.violation_minutes\<close> is undefined and every entry is
  compared with 0; the last entry with positive minutes is kept.
\<close>

definition maxViolationOf :: "(string \<times> ViolationData) list \<Rightarrow> (string \<times> ViolationData) option" where
  "maxViolationOf svs =
     foldl (\<lambda>mx sv. if violation_minutes (snd sv) > 0 then Some sv else mx) None svs"

definition checkSLAViolationOnPacking ::
  "(oid \<Rightarrow> DealerSLA option) \<Rightarrow> date \<Rightarrow> Order \<Rightarrow> date option \<Rightarrow> string option \<Rightarrow> PackingCheck" where
  "checkSLAViolationOnPacking slaOf now order packedAtArg skuArg =
     (if skus order = [] then emptyCheck
      else if skuArg \<noteq> None \<and> skuArg \<noteq> Some []
      then (case skuArg of
              None \<Rightarrow> emptyCheck
            | Some s \<Rightarrow>
                (case find (\<lambda>i. sku i = s) (skus order) of
                   None \<Rightarrow> emptyCheck
                 | Some skuItem \<Rightarrow>
                     (let skuCheck = checkSKUSLAViolation slaOf now order s
                            (skuPackedAt now packedAtArg skuItem)
                      in \<lparr>hasViolation = (skuCheck \<noteq> None), violation = skuCheck,
                           skuViolations = (case skuCheck of None \<Rightarrow> [] | Some v \<Rightarrow> [(s, v)]),
                           allSkusViolated = Some (skuCheck \<noteq> None)\<rparr>)))
      else
        (let packedSkus = filter isPacked (skus order)
         in if packedSkus = [] then emptyCheck
            else
              (case checkPackedSkus slaOf now order packedAtArg packedSkus ([], True, False) of
                 (svs, allV, anyV) \<Rightarrow>
                   if anyV \<and> allV \<and> length svs = length packedSkus
                   then \<lparr>hasViolation = True,
                          violation =
                            (case maxViolationOf svs of
                               None \<Rightarrow> None
                             | Some mv \<Rightarrow>
                                 Some \<lparr>dealer_id = dealer_id (snd mv),
                                   order_id = order_oid order, v_sku = None,
                                   expected_fulfillment_time = expected_fulfillment_time (snd mv),
                                   actual_fulfillment_time = actual_fulfillment_time (snd mv),
                                   violation_minutes = violation_minutes (snd mv)\<rparr>),
                          skuViolations = svs, allSkusViolated = Some True\<rparr>
                   else \<lparr>hasViolation = False, violation = None, skuViolations = svs,
                          allSkusViolated = Some False\<rparr>)))"

text \<open>The persisted state of the SLA engine: the violation ledger and the orders. Its
  reads and writes are taken to succeed.\<close>

record SlaState =
  ledger :: "SLAViolation list"
  orders :: "Order list"

text \<open>\<open>recordSKUViolations\<close>: one unresolved document per violation object, with
  \<open>sku: violationData.sku || null\<close> (an empty string is falsy).\<close>

definition toDocument :: "ViolationData \<Rightarrow> SLAViolation" where
  "toDocument vd =
     \<lparr>dealer_id = dealer_id vd, order_id = order_id vd,
      v_sku = (case v_sku vd of None \<Rightarrow> None | Some s \<Rightarrow> if s = [] then None else Some s),
      expected_fulfillment_time = expected_fulfillment_time vd,
      actual_fulfillment_time = actual_fulfillment_time vd,
      violation_minutes = violation_minutes vd, resolved = False\<rparr>"

definition recordSKUViolations :: "ViolationData list \<Rightarrow> SLAViolation list \<Rightarrow> SLAViolation list" where
  "recordSKUViolations violations docs = docs @ map toDocument violations"

text \<open>\<open>updateOrderWithSLAViolation\<close>: \<open>Order.findByIdAndUpdate\<close> with the four
  \<open>slaInfo\<close> fields.\<close>

definition updateOrderWithSLAViolation :: "oid \<Rightarrow> ViolationData \<Rightarrow> Order list \<Rightarrow> Order list" where
  "updateOrderWithSLAViolation orderId vd os =
     map (\<lambda>ord. if order_oid ord = orderId
                then ord\<lparr>slaInfo :=
                       \<lparr>actualFulfillmentTime = Some (actual_fulfillment_time vd),
                        isSLAMet = Some False,
                        violationMinutes = Some (violation_minutes vd),
                        expectedFulfillmentTime = Some (expected_fulfillment_time vd)\<rparr>\<rparr>
                else ord) os"

text \<open>The filter of \<open>checkOrderSLAViolation\<close> on the SKUs of the order.\<close>

definition isPackedActive :: "SkuItem \<Rightarrow> bool" where
  "isPackedActive s =
     (tracking_status s = Some ''Packed'' \<and> packedAt s \<noteq> None
      \<and> tracking_status s \<noteq> Some ''Delivered'' \<and> tracking_status s \<noteq> Some ''Cancelled'')"

text \<open>The unresolved documents of an order for the given SKUs
  (\<open>SLAViolation.find({order_id, sku: {$in: skus}, resolved: false})\<close>).\<close>

definition existingViolations :: "oid \<Rightarrow> string list \<Rightarrow> SLAViolation list \<Rightarrow> SLAViolation list" where
  "existingViolations orderId ss docs =
     filter (\<lambda>v. order_id v = orderId
                \<and> (case v_sku v of None \<Rightarrow> False | Some s \<Rightarrow> s \<in> set ss)
                \<and> \<not> resolved v) docs"

text \<open>\<open>SLAViolation.findOne({order_id, sku: null, resolved: false})\<close>.\<close>

definition existingOrderViolation :: "oid \<Rightarrow> SLAViolation list \<Rightarrow> SLAViolation option" where
  "existingOrderViolation orderId docs =
     find (\<lambda>v. order_id v = orderId \<and> v_sku v = None \<and> \<not> resolved v) docs"

text \<open>The first half of \<open>checkOrderSLAViolation\<close>: recording the new SKU-level
  violations.\<close>

definition recordNewSkuViolations ::
  "oid \<Rightarrow> (string \<times> ViolationData) list \<Rightarrow> SLAViolation list \<Rightarrow> SLAViolation list" where
  "recordNewSkuViolations orderId svs docs =
     (if svs \<noteq> []
      then (let existing = existingViolations orderId (map fst svs) docs;
                existingSkuSet = set (map v_sku existing);
                newViolations = filter (\<lambda>sv. Some (fst sv) \<notin> existingSkuSet) svs
            in if newViolations \<noteq> []
               then recordSKUViolations (map snd newViolations) docs
               else docs)
      else docs)"

text \<open>\<open>checkOrderSLAViolation\<close> of the SLA middleware: the returned flag and the new
  state.\<close>

definition checkOrderSLAViolation ::
  "(oid \<Rightarrow> DealerSLA option) \<Rightarrow> date \<Rightarrow> Order \<Rightarrow> SlaState \<Rightarrow> bool \<times> SlaState" where
  "checkOrderSLAViolation slaOf now order st =
     (if skus order = [] then (False, st)
      else if filter isPackedActive (skus order) = [] then (False, st)
      else
        (let slaCheck = checkSLAViolationOnPacking slaOf now order None None;
             st1 = st\<lparr>ledger :=
                     recordNewSkuViolations (order_oid order) (skuViolations slaCheck) (ledger st)\<rparr>
         in if hasViolation slaCheck \<and> violation slaCheck \<noteq> None
                 \<and> allSkusViolated slaCheck = Some True
            then (case violation slaCheck of
                    None \<Rightarrow> (skuViolations slaCheck \<noteq> [], st1)
                  | Some vd \<Rightarrow>
                      (case existingOrderViolation (order_oid order) (ledger st1) of
                         None \<Rightarrow>
                           (True,
                            st1\<lparr>orders :=
                                  updateOrderWithSLAViolation (order_oid order) vd (orders st1)\<rparr>)
                       | Some _ \<Rightarrow> (skuViolations slaCheck \<noteq> [], st1)))
            else (skuViolations slaCheck \<noteq> [], st1)))"

text \<open>
  \<open>checkAllActiveOrders\<close>: the per-order check on every order the query for active
  orders returned, counting processed orders and reported violations.
\<close>

fun checkAllActiveOrders ::
  "(oid \<Rightarrow> DealerSLA option) \<Rightarrow> date \<Rightarrow> Order list \<Rightarrow> nat \<times> nat \<Rightarrow> SlaState \<Rightarrow>
   (nat \<times> nat) \<times> SlaState" where
  "checkAllActiveOrders slaOf now [] counts st = (counts, st)"
| "checkAllActiveOrders slaOf now (order # rest) (processedCount, violationCount) st =
     (case checkOrderSLAViolation slaOf now order st of
        (hasV, st') \<Rightarrow>
          checkAllActiveOrders slaOf now rest
            (processedCount + 1, if hasV then violationCount + 1 else violationCount) st')"

section \<open>Return requests\<close>

datatype ReturnStatus =
  Requested | Validated | Pickup_Scheduled | Pickup_Completed | Under_Inspection
  | Approved | Rejected | Refund_Processed | Completed

text \<open>An identifier of the logistics partner, or the local placeholder
  \<open>`PICKUP_${Date.now()}`\<close>, \<open>`TRK_${Date.now()}`\<close> made of a prefix and the clock.\<close>

datatype Ref = Given string | Placeholder string date

record Refund =
  refundAmount :: real
  processedBy :: "oid option"
  processedAt :: "date option"
  refundMethod :: "string option"
  refundStatus :: "string option"
  transactionId :: "string option"
  refundNotes :: "string option"
  refund_id :: "oid option"

text \<open>The pickup sub-record; the address blocks and the raw carrier response are left
  out.\<close>

record PickupRequest =
  pickupId :: "Ref option"
  scheduledDate :: "date option"
  logisticsPartner :: "string option"
  trackingNumber :: "Ref option"
  borzoOrderId :: "string option"
  borzoTrackingUrl :: "string option"
  completedDate :: "date option"

record Inspection =
  inspectedBy :: "oid option"
  inspectedAt :: "date option"
  skuMatch :: "bool option"
  condition :: "string option"
  conditionNotes :: "string option"
  inspectionImages :: "string list"
  isApproved :: "bool option"
  rejectionReason :: "string option"

record Timestamps =
  requestedAt :: "date option"
  validatedAt :: "date option"
  pickupScheduledAt :: "date option"
  pickupCompletedAt :: "date option"
  inspectionStartedAt :: "date option"
  inspectionCompletedAt :: "date option"
  refundProcessedAt :: "date option"
  completedAt :: "date option"

record ReturnRequest =
  rr_id :: oid
  rr_orderId :: oid
  rr_customerId :: oid
  rr_sku :: string
  rr_quantity :: int
  returnReason :: string
  returnDescription :: "string option"
  returnImages :: "string list"
  isEligible :: bool
  eligibilityReason :: string
  isWithinReturnWindow :: "bool option"
  isProductReturnable :: "bool option"
  returnWindowDays :: "int option"
  originalOrderDate :: "date option"
  originalDeliveryDate :: "date option"
  rr_dealerId :: "oid option"
  returnStatus :: ReturnStatus
  actionTaken :: "string option"
  refund :: Refund
  pickupRequest :: PickupRequest
  inspection :: Inspection
  timestamps :: Timestamps
  rr_notes :: "(string \<times> oid option) list"

text \<open>A ledger entry of the \<open>Refund\<close> collection.\<close>

record RefundRecord =
  refund_oid :: oid
  rf_order_id :: oid
  rf_return_id :: oid
  razorpay_payout_id :: "string option"
  razorpay_refund_id :: "string option"
  amount :: real
  currency :: string
  rf_status :: "string option"
  refund_type :: string
  rf_reason :: string

text \<open>A notification handed to the notification service: recipients and title.\<close>

record Notification =
  recipients :: "oid list"
  title :: string

text \<open>
  The persisted state the return controller works on. Reads and writes of the stores and
  the hand-over to the notification service are taken to succeed; the calls that the
  source guards with its own \<open>try\<close> (product service, user service, carrier, payment
  provider) can fail, and their failure is a value of the environment below.
\<close>

record World =
  returnDocs :: "ReturnRequest list"
  orderDocs :: "Order list"
  refundDocs :: "RefundRecord list"
  sent :: "Notification list"

section \<open>Collaborators\<close>

text \<open>The reply of the product service to \<open>GET /sku/:sku\<close>: the call throws, or answers
  with \<open>success\<close> and \<open>data.is_returnable\<close>.\<close>

datatype ProductResponse = ProductCallFailed | ProductReply bool "bool option"

record BorzoResponse =
  borzo_order_id :: "string option"
  borzo_tracking_number :: "string option"
  borzo_tracking_url :: "string option"

record BankDetails =
  account_number :: "string option"
  ifsc_code :: "string option"
  bank_account_holder_name :: "string option"

record UserData =
  bank_details :: "BankDetails option"

record Payment =
  payment_oid :: oid
  payment_id :: "string option"

record PayoutData =
  payout_id :: string
  payout_currency :: "string option"
  payout_status :: "string option"

record PaymentDetails =
  pd_amount :: "int option"
  pd_amount_refunded :: "int option"

record RefundData =
  rd_id :: string
  rd_currency :: "string option"
  rd_status :: "string option"
  rd_error_description :: "string option"

text \<open>
  What the outside world answers during one operation: the clock, the product service,
  the carrier, the user service, the payment store, and the payment provider's replies
  to contact creation, fund-account creation, payout, payment lookup and refund
  (\<open>None\<close> is a call that throws), and the identifiers the store gives new documents.
\<close>

record Env =
  env_now :: date
  env_product :: "string \<Rightarrow> ProductResponse"
  env_borzo :: "BorzoResponse option"
  env_user :: "UserData option"
  env_payments :: "Payment list"
  env_contact :: "string option"
  env_fund :: "string option"
  env_payout :: "PayoutData option"
  env_paymentDetails :: "PaymentDetails option"
  env_refund :: "RefundData option"
  env_newReturnId :: oid
  env_newRefundId :: oid

text \<open>The calls made to the payment provider, with the amounts in minor units.\<close>

datatype ProviderCall =
  CreateContact
  | CreateFundAccount string
  | CreatePayout string int
  | FetchPayment string
  | CreateRefund string int

text \<open>The errors thrown inside \<open>processRefundPayment\<close>, which become the message of
  \<open>{success: false, message}\<close>.\<close>

datatype RefundFailure =
  OrderNotFound
  | PaymentNotFound
  | PaymentIdNotFound
  | PaymentLookupFailed
  | ExceedsBalance real int
  | RefundCallFailed
  | RefundStatusFailed "string option"

datatype RefundResult =
  RefundSuccess string oid string
  | RefundFailed RefundFailure

text \<open>\<open>sendError(res, message)\<close> and \<open>sendSuccess(res, returnRequest, message)\<close>.\<close>

datatype Failure = Message string | RefundProcessingFailed RefundFailure

datatype Response = SendError Failure | SendSuccess ReturnRequest string

text \<open>Truthiness of an optional string.\<close>

definition truthy :: "string option \<Rightarrow> bool" where
  "truthy x = (case x of None \<Rightarrow> False | Some s \<Rightarrow> s \<noteq> [])"

definition findReturn :: "oid \<Rightarrow> ReturnRequest list \<Rightarrow> ReturnRequest option" where
  "findReturn returnId docs = find (\<lambda>r. rr_id r = returnId) docs"

definition findOrder :: "oid \<Rightarrow> Order list \<Rightarrow> Order option" where
  "findOrder orderId docs = find (\<lambda>ord. order_oid ord = orderId) docs"

text \<open>\<open>returnRequest.save()\<close> and \<open>order.save()\<close>: the stored document with the
  \<open>_id\<close> of the saved one, the first the lookup finds, is replaced.\<close>

fun replaceFirst :: "('a \<Rightarrow> bool) \<Rightarrow> 'a \<Rightarrow> 'a list \<Rightarrow> 'a list" where
  "replaceFirst P y [] = []"
| "replaceFirst P y (x # xs) = (if P x then y # xs else x # replaceFirst P y xs)"

definition saveReturn :: "ReturnRequest \<Rightarrow> World \<Rightarrow> World" where
  "saveReturn r w =
     w\<lparr>returnDocs := replaceFirst (\<lambda>x. rr_id x = rr_id r) r (returnDocs w)\<rparr>"

definition saveOrder :: "Order \<Rightarrow> World \<Rightarrow> World" where
  "saveOrder ord w =
     w\<lparr>orderDocs := replaceFirst (\<lambda>x. order_oid x = order_oid ord) ord (orderDocs w)\<rparr>"

definition notify :: "oid list \<Rightarrow> string \<Rightarrow> World \<Rightarrow> World" where
  "notify rs t w = w\<lparr>sent := sent w @ [\<lparr>recipients = rs, title = t\<rparr>]\<rparr>"

section \<open>Eligibility evaluator\<close>

record EligibilityResult =
  el_isEligible :: bool
  el_reason :: string
  el_isWithinReturnWindow :: "bool option"
  el_isProductReturnable :: "bool option"
  el_returnWindowDays :: "int option"

text \<open>The product check of \<open>validateReturnEligibility\<close>: false unless the call succeeds,
  answers \<open>success\<close> and a truthy \<open>is_returnable\<close>.\<close>

definition productReturnable :: "ProductResponse \<Rightarrow> bool" where
  "productReturnable resp =
     (case resp of
        ProductCallFailed \<Rightarrow> False
      | ProductReply ok r \<Rightarrow> if ok then (case r of Some b \<Rightarrow> b | None \<Rightarrow> False) else False)"

definition validateReturnEligibility :: "Env \<Rightarrow> Order \<Rightarrow> string \<Rightarrow> EligibilityResult" where
  "validateReturnEligibility env order s =
     (case find (\<lambda>i. sku i = s) (skus order) of
        None \<Rightarrow>
          \<lparr>el_isEligible = False, el_reason = ''SKU not found in order'',
           el_isWithinReturnWindow = None, el_isProductReturnable = None,
           el_returnWindowDays = None\<rparr>
      | Some orderSku \<Rightarrow>
          (case deliveredAt orderSku of
             None \<Rightarrow>
               \<lparr>el_isEligible = False, el_reason = ''Delivery date not found'',
                el_isWithinReturnWindow = None, el_isProductReturnable = None,
                el_returnWindowDays = None\<rparr>
           | Some deliveryDate \<Rightarrow>
               (let windowDays = 7;
                    returnDeadline = addDays deliveryDate windowDays;
                    inWindow = (env_now env \<le> returnDeadline);
                    returnable = productReturnable (env_product env s);
                    eligible = (inWindow \<and> returnable)
                in \<lparr>el_isEligible = eligible,
                     el_reason =
                       (if eligible then ''Return request is eligible''
                        else if \<not> inWindow then ''Return window has expired''
                        else ''Product is not returnable''),
                     el_isWithinReturnWindow = Some inWindow,
                     el_isProductReturnable = Some returnable,
                     el_returnWindowDays = Some windowDays\<rparr>)))"

section \<open>Refund processor\<close>

definition hasBankAccount :: "Env \<Rightarrow> bool" where
  "hasBankAccount env =
     (case env_user env of
        None \<Rightarrow> False
      | Some u \<Rightarrow>
          (case bank_details u of
             None \<Rightarrow> False
           | Some b \<Rightarrow>
               truthy (account_number b) \<and> truthy (ifsc_code b)
               \<and> truthy (bank_account_holder_name b)))"

definition useBankPayout :: "Env \<Rightarrow> string \<Rightarrow> Payment \<Rightarrow> bool" where
  "useBankPayout env method payment =
     (hasBankAccount env
      \<and> (method = ''Bank_Account'' \<or> method = ''Wallet'' \<or> \<not> truthy (payment_id payment)))"

text \<open>\<open>x || "INR"\<close>.\<close>

definition currencyOr :: "string option \<Rightarrow> string" where
  "currencyOr c = (case c of None \<Rightarrow> ''INR'' | Some x \<Rightarrow> if x = [] then ''INR'' else x)"

text \<open>Writing the ledger entry and stamping the return request, as both paths do after
  the provider call.\<close>

definition recordRefund :: "RefundRecord \<Rightarrow> ReturnRequest \<Rightarrow> World \<Rightarrow> ReturnRequest \<times> World" where
  "recordRefund refundRecord r w =
     (let r' = r\<lparr>refund := (refund r)\<lparr>refund_id := Some (refund_oid refundRecord)\<rparr>\<rparr>
      in (r', saveReturn r' (w\<lparr>refundDocs := refundDocs w @ [refundRecord]\<rparr>)))"

text \<open>
  The bank-payout block of \<open>processRefundPayment\<close>: contact, fund account, payout. \<open>None\<close>
  is the \<open>catch\<close> that falls through to the source refund; the calls made so far are
  returned with it.
\<close>

definition bankPayout ::
  "Env \<Rightarrow> ReturnRequest \<Rightarrow> Order \<Rightarrow> World \<Rightarrow>
   (RefundResult \<times> ReturnRequest \<times> World) option \<times> ProviderCall list" where
  "bankPayout env r order w =
     (case env_contact env of
        None \<Rightarrow> (None, [CreateContact])
      | Some contactId \<Rightarrow>
          (case env_fund env of
             None \<Rightarrow> (None, [CreateContact, CreateFundAccount contactId])
           | Some fundAccountId \<Rightarrow>
               (let paise = Math_round (refundAmount (refund r) * 100);
                    calls = [CreateContact, CreateFundAccount contactId,
                             CreatePayout fundAccountId paise]
                in case env_payout env of
                     None \<Rightarrow> (None, calls)
                   | Some p \<Rightarrow>
                       (let refundRecord =
                              \<lparr>refund_oid = env_newRefundId env, rf_order_id = order_oid order,
                               rf_return_id = rr_id r, razorpay_payout_id = Some (payout_id p),
                               razorpay_refund_id = None, amount = refundAmount (refund r),
                               currency = currencyOr (payout_currency p),
                               rf_status = payout_status p, refund_type = ''Refund-COD'',
                               rf_reason = ''Return refund via bank payout''\<rparr>
                        in case recordRefund refundRecord r w of
                             (r', w') \<Rightarrow>
                               (Some (RefundSuccess (payout_id p) (refund_oid refundRecord)
                                        ''Bank_Payout'', r', w'),
                                calls)))))"

text \<open>The source-refund part of \<open>processRefundPayment\<close>.\<close>

definition sourceRefund ::
  "Env \<Rightarrow> ReturnRequest \<Rightarrow> Order \<Rightarrow> Payment \<Rightarrow> World \<Rightarrow>
   (RefundResult \<times> ReturnRequest \<times> World) \<times> ProviderCall list" where
  "sourceRefund env r order payment w =
     (case payment_id payment of
        None \<Rightarrow> ((RefundFailed PaymentIdNotFound, r, w), [])
      | Some pid \<Rightarrow>
          if pid = [] then ((RefundFailed PaymentIdNotFound, r, w), [])
          else
            (case env_paymentDetails env of
               None \<Rightarrow> ((RefundFailed PaymentLookupFailed, r, w), [FetchPayment pid])
             | Some pd \<Rightarrow>
                 (let capturedAmount = (case pd_amount pd of None \<Rightarrow> 0 | Some a \<Rightarrow> a);
                      alreadyRefunded =
                        (case pd_amount_refunded pd of None \<Rightarrow> 0 | Some a \<Rightarrow> a);
                      requestedRefundAmount = Math_round (refundAmount (refund r) * 100);
                      refundableBalance = capturedAmount - alreadyRefunded
                  in if requestedRefundAmount > refundableBalance
                     then ((RefundFailed
                              (ExceedsBalance (refundAmount (refund r)) refundableBalance), r, w),
                           [FetchPayment pid])
                     else
                       (case env_refund env of
                          None \<Rightarrow>
                            ((RefundFailed RefundCallFailed, r, w),
                             [FetchPayment pid, CreateRefund pid requestedRefundAmount])
                        | Some rd \<Rightarrow>
                            if rd_status rd = Some ''failed''
                            then ((RefundFailed (RefundStatusFailed (rd_error_description rd)),
                                   r, w),
                                  [FetchPayment pid, CreateRefund pid requestedRefundAmount])
                            else
                              (let refundRecord =
                                     \<lparr>refund_oid = env_newRefundId env,
                                      rf_order_id = order_oid order, rf_return_id = rr_id r,
                                      razorpay_payout_id = None,
                                      razorpay_refund_id = Some (rd_id rd),
                                      amount = refundAmount (refund r),
                                      currency = currencyOr (rd_currency rd),
                                      rf_status = rd_status rd, refund_type = ''Refund-Online'',
                                      rf_reason = ''Return refund to source account''\<rparr>
                               in case recordRefund refundRecord r w of
                                    (r', w') \<Rightarrow>
                                      ((RefundSuccess (rd_id rd) (refund_oid refundRecord)
                                          ''Source_Refund'', r', w'),
                                       [FetchPayment pid,
                                        CreateRefund pid requestedRefundAmount]))))))"

text \<open>\<open>Payment.findById(order.payment_id)\<close>.\<close>

definition findPayment :: "Env \<Rightarrow> Order \<Rightarrow> Payment option" where
  "findPayment env order =
     (case payment_ref order of
        None \<Rightarrow> None
      | Some p \<Rightarrow> find (\<lambda>x. payment_oid x = p) (env_payments env))"

text \<open>
  \<open>processRefundPayment\<close>: the result object, the return request as the function leaves
  it, the new state, and the provider calls in order.
\<close>

definition processRefundPayment ::
  "Env \<Rightarrow> ReturnRequest \<Rightarrow> string \<Rightarrow> World \<Rightarrow>
   (RefundResult \<times> ReturnRequest \<times> World) \<times> ProviderCall list" where
  "processRefundPayment env r method w =
     (case findOrder (rr_orderId r) (orderDocs w) of
        None \<Rightarrow> ((RefundFailed OrderNotFound, r, w), [])
      | Some order \<Rightarrow>
          (case findPayment env order of
             None \<Rightarrow> ((RefundFailed PaymentNotFound, r, w), [])
           | Some payment \<Rightarrow>
               if useBankPayout env method payment
               then (case bankPayout env r order w of
                       (Some res, calls) \<Rightarrow> (res, calls)
                     | (None, calls) \<Rightarrow>
                         (case sourceRefund env r order payment w of
                            (res, calls') \<Rightarrow> (res, calls @ calls')))
               else sourceRefund env r order payment w))"

section \<open>Return lifecycle orchestrator\<close>

definition refOr :: "string option \<Rightarrow> string \<Rightarrow> date \<Rightarrow> Ref" where
  "refOr x prefix t = (if truthy x then (case x of Some s \<Rightarrow> Given s | None \<Rightarrow> Placeholder prefix t)
                       else Placeholder prefix t)"

definition borzoField :: "(BorzoResponse \<Rightarrow> string option) \<Rightarrow> Env \<Rightarrow> string option" where
  "borzoField f env =
     (case env_borzo env of
        None \<Rightarrow> None
      | Some b \<Rightarrow> if truthy (f b) then f b else None)"

text \<open>
  \<open>createLogisticsPickupRequest\<close>: throws (\<open>None\<close>) when the order is gone; a failed
  carrier booking (\<open>env_borzo = None\<close>) still yields a pickup with local placeholders.
\<close>

definition createLogisticsPickupRequest ::
  "Env \<Rightarrow> ReturnRequest \<Rightarrow> date option \<Rightarrow> World \<Rightarrow> PickupRequest option" where
  "createLogisticsPickupRequest env r sched w =
     (case findOrder (rr_orderId r) (orderDocs w) of
        None \<Rightarrow> None
      | Some order \<Rightarrow>
          Some \<lparr>pickupId = Some (refOr (borzoField borzo_order_id env) ''PICKUP_'' (env_now env)),
                scheduledDate = Some (case sched of Some d \<Rightarrow> d | None \<Rightarrow> env_now env),
                logisticsPartner = Some ''Borzo'',
                trackingNumber =
                  Some (refOr (borzoField borzo_tracking_number env) ''TRK_'' (env_now env)),
                borzoOrderId = borzoField borzo_order_id env,
                borzoTrackingUrl = borzoField borzo_tracking_url env,
                completedDate = None\<rparr>)"

text \<open>\<open>{...returnRequest.pickupRequest, ...pickupRequest}\<close>.\<close>

definition mergePickup :: "PickupRequest \<Rightarrow> PickupRequest \<Rightarrow> PickupRequest" where
  "mergePickup old new = new\<lparr>completedDate := completedDate old\<rparr>"

definition markPickupScheduled :: "Env \<Rightarrow> PickupRequest \<Rightarrow> ReturnRequest \<Rightarrow> ReturnRequest" where
  "markPickupScheduled env p r =
     r\<lparr>returnStatus := Pickup_Scheduled,
       pickupRequest := mergePickup (pickupRequest r) p,
       timestamps := (timestamps r)\<lparr>pickupScheduledAt := Some (env_now env)\<rparr>\<rparr>"

text \<open>The helper \<open>schedulePickup(returnId, authToken)\<close> called after a successful
  validation; \<open>None\<close> when it throws. It checks no status.\<close>

definition schedulePickup :: "Env \<Rightarrow> oid \<Rightarrow> World \<Rightarrow> World option" where
  "schedulePickup env returnId w =
     (case findReturn returnId (returnDocs w) of
        None \<Rightarrow> None
      | Some r \<Rightarrow>
          (case createLogisticsPickupRequest env r (Some (addDays (env_now env) 1)) w of
             None \<Rightarrow> None
           | Some p \<Rightarrow> Some (saveReturn (markPickupScheduled env p r) w)))"

text \<open>The body of \<open>POST\<close> create-return, with the authenticated user.\<close>

record CreateRequest =
  body_orderId :: "oid option"
  body_sku :: "string option"
  body_quantity :: "int option"
  body_returnReason :: "string option"
  body_returnDescription :: "string option"
  body_returnImages :: "string list"
  req_userId :: "oid option"
  body_customerId :: "oid option"

definition missingFields :: Failure where
  "missingFields = Message ''Missing required fields: orderId, sku, returnReason, customerId''"

text \<open>The document \<open>Return.create\<close> stores; sub-records start empty.\<close>

definition newReturnRequest ::
  "Env \<Rightarrow> CreateRequest \<Rightarrow> oid \<Rightarrow> string \<Rightarrow> string \<Rightarrow> oid \<Rightarrow> int \<Rightarrow> Order \<Rightarrow> SkuItem \<Rightarrow>
   EligibilityResult \<Rightarrow> ReturnRequest" where
  "newReturnRequest env req orderId s reason cid qty order orderSku el =
     \<lparr>rr_id = env_newReturnId env, rr_orderId = orderId, rr_customerId = cid, rr_sku = s,
      rr_quantity = qty, returnReason = reason,
      returnDescription = body_returnDescription req, returnImages = body_returnImages req,
      isEligible = el_isEligible el, eligibilityReason = el_reason el,
      isWithinReturnWindow = el_isWithinReturnWindow el,
      isProductReturnable = el_isProductReturnable el,
      returnWindowDays = el_returnWindowDays el,
      originalOrderDate = orderDate order,
      originalDeliveryDate =
        (case find (\<lambda>i. sku i = s) (skus order) of None \<Rightarrow> None | Some i \<Rightarrow> deliveredAt i),
      rr_dealerId = (case dealerMapped orderSku of [] \<Rightarrow> None | dm # _ \<Rightarrow> dealerId dm),
      returnStatus = (if el_isEligible el then Validated else Requested),
      actionTaken = None,
      refund =
        \<lparr>refundAmount = selling_price orderSku * real_of_int qty, processedBy = None,
         processedAt = None, refundMethod = None, refundStatus = None, transactionId = None,
         refundNotes = None, refund_id = None\<rparr>,
      pickupRequest =
        \<lparr>pickupId = None, scheduledDate = None, logisticsPartner = None, trackingNumber = None,
         borzoOrderId = None, borzoTrackingUrl = None, completedDate = None\<rparr>,
      inspection =
        \<lparr>inspectedBy = None, inspectedAt = None, skuMatch = None, condition = None,
         conditionNotes = None, inspectionImages = [], isApproved = None,
         rejectionReason = None\<rparr>,
      timestamps =
        \<lparr>requestedAt = Some (env_now env),
         validatedAt = (if el_isEligible el then Some (env_now env) else None),
         pickupScheduledAt = None, pickupCompletedAt = None, inspectionStartedAt = None,
         inspectionCompletedAt = None, refundProcessedAt = None, completedAt = None\<rparr>,
      rr_notes = []\<rparr>"

text \<open>\<open>createReturnRequest\<close> once the required fields are present.\<close>

definition createChecked ::
  "Env \<Rightarrow> CreateRequest \<Rightarrow> oid \<Rightarrow> string \<Rightarrow> string \<Rightarrow> oid \<Rightarrow> int \<Rightarrow> World \<Rightarrow> Response \<times> World" where
  "createChecked env req orderId s reason cid qty w =
     (case find (\<lambda>r. rr_orderId r = orderId \<and> rr_sku r = s) (returnDocs w) of
        Some existingReturn \<Rightarrow>
          (SendError (Message ''Return request already exists for this order and SKU''), w)
      | None \<Rightarrow>
          (case findOrder orderId (orderDocs w) of
             None \<Rightarrow> (SendError (Message ''Order not found''), w)
           | Some order \<Rightarrow>
               if customer_userId order \<noteq> Some cid
               then (SendError (Message ''Unauthorized: Order does not belong to customer''), w)
               else
                 (case find (\<lambda>i. sku i = s) (skus order) of
                    None \<Rightarrow> (SendError (Message ''SKU not found in order''), w)
                  | Some orderSku \<Rightarrow>
                      if qty > quantity orderSku
                      then (SendError
                              (Message ''Return quantity cannot exceed ordered quantity''), w)
                      else
                        (let el = validateReturnEligibility env order s;
                             returnRequest =
                               newReturnRequest env req orderId s reason cid qty order orderSku el;
                             w1 = w\<lparr>returnDocs := returnDocs w @ [returnRequest]\<rparr>;
                             order' =
                               order\<lparr>skus :=
                                 map (\<lambda>i. if sku i = s
                                           then i\<lparr>return_id := Some (rr_id returnRequest)\<rparr>
                                           else i) (skus order)\<rparr>;
                             w2 = saveOrder order' w1;
                             w3 = notify [cid] ''Return Request Created'' w2
                         in if el_isEligible el
                            then (case schedulePickup env (rr_id returnRequest) w3 of
                                    None \<Rightarrow>
                                      (SendError (Message ''Failed to create return request''), w3)
                                  | Some w4 \<Rightarrow>
                                      (SendSuccess returnRequest
                                         ''Return request created successfully'', w4))
                            else (SendSuccess returnRequest
                                    ''Return request created successfully'', w3)))))"

text \<open>\<open>exports.createReturnRequest\<close>: the customer is \<open>req.user?.id || req.body.customerId\<close>,
  the quantity defaults to 1, and a missing or empty required field is refused first.\<close>

definition createReturnRequest :: "Env \<Rightarrow> CreateRequest \<Rightarrow> World \<Rightarrow> Response \<times> World" where
  "createReturnRequest env req w =
     (let qty = (case body_quantity req of None \<Rightarrow> 1 | Some q \<Rightarrow> q)
      in case body_orderId req of
           None \<Rightarrow> (SendError missingFields, w)
         | Some orderId \<Rightarrow>
             (case body_sku req of
                None \<Rightarrow> (SendError missingFields, w)
              | Some s \<Rightarrow>
                  if s = [] then (SendError missingFields, w)
                  else
                    (case body_returnReason req of
                       None \<Rightarrow> (SendError missingFields, w)
                     | Some reason \<Rightarrow>
                         if reason = [] then (SendError missingFields, w)
                         else
                           (case orElse (req_userId req) (body_customerId req) of
                              None \<Rightarrow> (SendError missingFields, w)
                            | Some cid \<Rightarrow> createChecked env req orderId s reason cid qty w))))"

text \<open>\<open>exports.validateReturnRequest\<close>: it checks no status.\<close>

definition validateReturnRequest :: "Env \<Rightarrow> oid \<Rightarrow> World \<Rightarrow> Response \<times> World" where
  "validateReturnRequest env returnId w =
     (case findReturn returnId (returnDocs w) of
        None \<Rightarrow> (SendError (Message ''Return request not found''), w)
      | Some r \<Rightarrow>
          (case findOrder (rr_orderId r) (orderDocs w) of
             None \<Rightarrow> (SendError (Message ''Order not found''), w)
           | Some order \<Rightarrow>
               (let el = validateReturnEligibility env order (rr_sku r);
                    r' = r\<lparr>isEligible := el_isEligible el, eligibilityReason := el_reason el,
                           isWithinReturnWindow := el_isWithinReturnWindow el,
                           isProductReturnable := el_isProductReturnable el,
                           returnStatus := (if el_isEligible el then Validated else Requested),
                           timestamps := (timestamps r)\<lparr>validatedAt := Some (env_now env)\<rparr>\<rparr>;
                    w1 = notify [rr_customerId r'] ''Return Request Validated'' (saveReturn r' w)
                in if el_isEligible el
                   then (case schedulePickup env (rr_id r') w1 of
                           None \<Rightarrow> (SendError (Message ''Failed to validate return request''), w1)
                         | Some w2 \<Rightarrow>
                             (SendSuccess r' ''Return request validated successfully'', w2))
                   else (SendSuccess r' ''Return request validated successfully'', w1))))"

text \<open>\<open>exports.schedulePickup\<close>.\<close>

definition exports_schedulePickup :: "Env \<Rightarrow> oid \<Rightarrow> date option \<Rightarrow> World \<Rightarrow> Response \<times> World" where
  "exports_schedulePickup env returnId sched w =
     (case findReturn returnId (returnDocs w) of
        None \<Rightarrow> (SendError (Message ''Return request not found''), w)
      | Some r \<Rightarrow>
          if returnStatus r \<noteq> Validated
          then (SendError
                  (Message ''Return request must be validated before scheduling pickup''), w)
          else
            (case createLogisticsPickupRequest env r sched w of
               None \<Rightarrow> (SendError (Message ''Failed to schedule pickup''), w)
             | Some p \<Rightarrow>
                 (let r' = markPickupScheduled env p r
                  in (SendSuccess r' ''Pickup scheduled successfully'',
                      notify [rr_customerId r'] ''Pickup Scheduled'' (saveReturn r' w)))))"

text \<open>\<open>exports.completePickup\<close>.\<close>

definition completePickup :: "Env \<Rightarrow> oid \<Rightarrow> string option \<Rightarrow> World \<Rightarrow> Response \<times> World" where
  "completePickup env returnId tracking w =
     (case findReturn returnId (returnDocs w) of
        None \<Rightarrow> (SendError (Message ''Return request not found''), w)
      | Some r \<Rightarrow>
          if returnStatus r \<noteq> Pickup_Scheduled
          then (SendError (Message ''Return request must be in Pickup_Scheduled status''), w)
          else
            (let r' = r\<lparr>returnStatus := Pickup_Completed,
                         pickupRequest :=
                           (pickupRequest r)\<lparr>completedDate := Some (env_now env),
                             trackingNumber := map_option Given tracking\<rparr>,
                         timestamps :=
                           (timestamps r)\<lparr>pickupCompletedAt := Some (env_now env)\<rparr>\<rparr>;
                 w1 = saveReturn r' w
             in (SendSuccess r' ''Pickup completed successfully'',
                 (case rr_dealerId r' of
                    None \<Rightarrow> w1
                  | Some d \<Rightarrow> notify [d] ''Return Item Received'' w1))))"

text \<open>\<open>exports.startInspection\<close>.\<close>

definition startInspection :: "Env \<Rightarrow> oid \<Rightarrow> oid option \<Rightarrow> World \<Rightarrow> Response \<times> World" where
  "startInspection env returnId staffId w =
     (case findReturn returnId (returnDocs w) of
        None \<Rightarrow> (SendError (Message ''Return request not found''), w)
      | Some r \<Rightarrow>
          if returnStatus r \<noteq> Pickup_Completed
          then (SendError (Message ''Return request must be in Pickup_Completed status''), w)
          else
            (let r' = r\<lparr>returnStatus := Under_Inspection,
                         inspection :=
                           (inspection r)\<lparr>inspectedBy := staffId,
                             inspectedAt := Some (env_now env)\<rparr>,
                         timestamps :=
                           (timestamps r)\<lparr>inspectionStartedAt := Some (env_now env)\<rparr>\<rparr>
             in (SendSuccess r' ''Inspection started successfully'', saveReturn r' w)))"

record InspectionBody =
  ib_skuMatch :: "bool option"
  ib_condition :: "string option"
  ib_conditionNotes :: "string option"
  ib_inspectionImages :: "string list"
  ib_isApproved :: "bool option"
  ib_rejectionReason :: "string option"

text \<open>\<open>findFulfillmentAdmins\<close> returns an empty array.\<close>

definition findFulfillmentAdmins :: "oid list" where
  "findFulfillmentAdmins = []"

text \<open>\<open>exports.completeInspection\<close>.\<close>

definition completeInspection :: "Env \<Rightarrow> oid \<Rightarrow> InspectionBody \<Rightarrow> World \<Rightarrow> Response \<times> World" where
  "completeInspection env returnId body w =
     (case findReturn returnId (returnDocs w) of
        None \<Rightarrow> (SendError (Message ''Return request not found''), w)
      | Some r \<Rightarrow>
          if returnStatus r \<noteq> Under_Inspection
          then (SendError (Message ''Return request must be in Under_Inspection status''), w)
          else
            (let approved = (ib_isApproved body = Some True);
                 r' = r\<lparr>inspection :=
                           (inspection r)\<lparr>skuMatch := ib_skuMatch body,
                             condition := ib_condition body,
                             conditionNotes := ib_conditionNotes body,
                             inspectionImages := ib_inspectionImages body,
                             isApproved := ib_isApproved body,
                             rejectionReason := ib_rejectionReason body\<rparr>,
                         timestamps :=
                           (timestamps r)\<lparr>inspectionCompletedAt := Some (env_now env)\<rparr>,
                         returnStatus := (if approved then Approved else Rejected),
                         actionTaken := Some (if approved then ''Refund'' else ''Rejected'')\<rparr>;
                 w1 = notify [rr_customerId r']
                        (if approved then ''Return Approved'' else ''Return Rejected'')
                        (saveReturn r' w);
                 w2 = (if approved \<and> findFulfillmentAdmins \<noteq> []
                       then notify findFulfillmentAdmins ''Return Ready for Refund'' w1
                       else w1)
             in (SendSuccess r' ''Inspection completed successfully'', w2)))"

text \<open>\<open>exports.processRefund\<close>; the refund method defaults to
  \<open>"Original_Payment_Method"\<close>.\<close>

definition processRefund ::
  "Env \<Rightarrow> oid \<Rightarrow> oid option \<Rightarrow> string option \<Rightarrow> string option \<Rightarrow> World \<Rightarrow> Response \<times> World" where
  "processRefund env returnId adminId methodArg refundNotesArg w =
     (case findReturn returnId (returnDocs w) of
        None \<Rightarrow> (SendError (Message ''Return request not found''), w)
      | Some r \<Rightarrow>
          if returnStatus r \<noteq> Approved
          then (SendError
                  (Message ''Return request must be approved before processing refund''), w)
          else
            (let method = (case methodArg of None \<Rightarrow> ''Original_Payment_Method'' | Some m \<Rightarrow> m)
             in case fst (processRefundPayment env r method w) of
                  (RefundFailed f, r1, w1) \<Rightarrow> (SendError (RefundProcessingFailed f), w1)
                | (RefundSuccess tid rid ty, r1, w1) \<Rightarrow>
                    (let r2 = r1\<lparr>returnStatus := Refund_Processed,
                                  refund :=
                                    (refund r1)\<lparr>processedBy := adminId,
                                      processedAt := Some (env_now env),
                                      refundMethod := Some method,
                                      refundStatus := Some ''Completed'',
                                      transactionId := Some tid,
                                      refundNotes := refundNotesArg\<rparr>,
                                  timestamps :=
                                    (timestamps r1)\<lparr>refundProcessedAt := Some (env_now env)\<rparr>\<rparr>
                     in (SendSuccess r2 ''Refund processed successfully'',
                         notify [rr_customerId r2] ''Refund Processed'' (saveReturn r2 w1)))))"

text \<open>\<open>exports.completeReturn\<close>.\<close>

definition completeReturn :: "Env \<Rightarrow> oid \<Rightarrow> World \<Rightarrow> Response \<times> World" where
  "completeReturn env returnId w =
     (case findReturn returnId (returnDocs w) of
        None \<Rightarrow> (SendError (Message ''Return request not found''), w)
      | Some r \<Rightarrow>
          if returnStatus r \<noteq> Refund_Processed
          then (SendError
                  (Message ''Return request must have refund processed before completion''), w)
          else
            (let r' = r\<lparr>returnStatus := Completed,
                         timestamps := (timestamps r)\<lparr>completedAt := Some (env_now env)\<rparr>\<rparr>
             in (SendSuccess r' ''Return completed successfully'',
                 notify [rr_customerId r'] ''Return Completed'' (saveReturn r' w))))"

text \<open>\<open>exports.addNote\<close>.\<close>

definition addNote :: "oid \<Rightarrow> string \<Rightarrow> oid option \<Rightarrow> World \<Rightarrow> Response \<times> World" where
  "addNote returnId note addedBy w =
     (case findReturn returnId (returnDocs w) of
        None \<Rightarrow> (SendError (Message ''Return request not found''), w)
      | Some r \<Rightarrow>
          (let r' = r\<lparr>rr_notes := rr_notes r @ [(note, addedBy)]\<rparr>
           in (SendSuccess r' ''Note added successfully'', saveReturn r' w)))"

section \<open>Vocabulary of the properties\<close>

text \<open>The entries \<open>{sku, violation}\<close> that the loop of \<open>checkSLAViolationOnPacking\<close>
  collects from a list of SKU items, in order.\<close>

definition violatedSkus ::
  "(oid \<Rightarrow> DealerSLA option) \<Rightarrow> date \<Rightarrow> Order \<Rightarrow> date option \<Rightarrow> SkuItem list \<Rightarrow>
   (string \<times> ViolationData) list" where
  "violatedSkus slaOf now order packedAtArg xs =
     concat (map (\<lambda>i. case checkSKUSLAViolation slaOf now order (sku i)
                              (skuPackedAt now packedAtArg i) of
                         None \<Rightarrow> []
                       | Some v \<Rightarrow> [(sku i, v)]) xs)"

text \<open>The unresolved SKU-level documents of an (order, sku) pair, and the order-level
  (sku = null) documents of an order.\<close>

definition unresolvedFor :: "oid \<Rightarrow> string \<Rightarrow> SLAViolation list \<Rightarrow> SLAViolation list" where
  "unresolvedFor orderId s docs =
     filter (\<lambda>v. order_id v = orderId \<and> v_sku v = Some s \<and> \<not> resolved v) docs"

definition orderLevelDocs :: "oid \<Rightarrow> SLAViolation list \<Rightarrow> SLAViolation list" where
  "orderLevelDocs orderId docs = filter (\<lambda>v. order_id v = orderId \<and> v_sku v = None) docs"

text \<open>The refund amount of every stored return request, by identifier.\<close>

definition refundAmounts :: "World \<Rightarrow> (oid \<times> real) list" where
  "refundAmounts w = map (\<lambda>r. (rr_id r, refundAmount (refund r))) (returnDocs w)"

section \<open>Sample data\<close>

text \<open>An order placed at time 0 with two packed SKUs; dealer 7, mapped on the SKU items,
  has an active 24-hour SLA, while the order-level mapping names dealer 8. SKU A is
  packed 10 minutes after the deadline, SKU B at the given time.\<close>

definition sampleSLA :: "oid \<Rightarrow> DealerSLA option" where
  "sampleSLA d =
     (if d = 7
      then Some \<lparr>is_active = True, sla_type = Some \<lparr>expected_hours = Some 24\<rparr>,
             dispatch_hours = None\<rparr>
      else None)"

definition sampleItem :: "string \<Rightarrow> date \<Rightarrow> SkuItem" where
  "sampleItem s p =
     \<lparr>sku = s, quantity = 2, selling_price = 150,
      dealerMapped = [\<lparr>dm_sku = None, dealerId = Some 7\<rparr>],
      tracking_status = Some ''Packed'', packedAt = Some p, deliveredAt = None,
      return_id = None\<rparr>"

definition sampleOrder :: "date \<Rightarrow> Order" where
  "sampleOrder pb =
     \<lparr>order_oid = 1, customer_userId = Some 5,
      skus = [sampleItem ''A'' 87000000, sampleItem ''B'' pb],
      dealerMapping = [\<lparr>dm_sku = Some ''A'', dealerId = Some 8\<rparr>],
      orderDate = Some 0, createdAt = None, payment_ref = Some 3,
      slaInfo = \<lparr>actualFulfillmentTime = None, isSLAMet = None, violationMinutes = None,
        expectedFulfillmentTime = None\<rparr>\<rparr>"

definition sampleState :: "date \<Rightarrow> SlaState" where
  "sampleState pb = \<lparr>ledger = [], orders = [sampleOrder pb]\<rparr>"

text \<open>A delivered order (SKU A, two units at 150, delivered at the given time), a return
  request for it in a given status, and an environment at day 10 in which the customer
  has bank details, the product is returnable, the payout call fails and the source
  refund goes through.\<close>

definition deliveredOrder :: "date \<Rightarrow> Order" where
  "deliveredOrder d =
     \<lparr>order_oid = 1, customer_userId = Some 5,
      skus = [\<lparr>sku = ''A'', quantity = 2, selling_price = 150,
               dealerMapped = [\<lparr>dm_sku = None, dealerId = Some 7\<rparr>],
               tracking_status = Some ''Delivered'', packedAt = None, deliveredAt = Some d,
               return_id = None\<rparr>],
      dealerMapping = [\<lparr>dm_sku = Some ''A'', dealerId = Some 8\<rparr>],
      orderDate = Some 0, createdAt = None, payment_ref = Some 3,
      slaInfo = \<lparr>actualFulfillmentTime = None, isSLAMet = None, violationMinutes = None,
        expectedFulfillmentTime = None\<rparr>\<rparr>"

definition sampleReturn :: "ReturnStatus \<Rightarrow> ReturnRequest" where
  "sampleReturn st =
     \<lparr>rr_id = 11, rr_orderId = 1, rr_customerId = 5, rr_sku = ''A'', rr_quantity = 2,
      returnReason = ''Damaged'', returnDescription = None, returnImages = [],
      isEligible = True, eligibilityReason = ''Return request is eligible'',
      isWithinReturnWindow = Some True, isProductReturnable = Some True,
      returnWindowDays = Some 7, originalOrderDate = Some 0, originalDeliveryDate = Some 0,
      rr_dealerId = Some 7, returnStatus = st, actionTaken = None,
      refund =
        \<lparr>refundAmount = 300, processedBy = None, processedAt = None, refundMethod = None,
         refundStatus = None, transactionId = None, refundNotes = None, refund_id = None\<rparr>,
      pickupRequest =
        \<lparr>pickupId = None, scheduledDate = None, logisticsPartner = None, trackingNumber = None,
         borzoOrderId = None, borzoTrackingUrl = None, completedDate = None\<rparr>,
      inspection =
        \<lparr>inspectedBy = None, inspectedAt = None, skuMatch = None, condition = None,
         conditionNotes = None, inspectionImages = [], isApproved = None,
         rejectionReason = None\<rparr>,
      timestamps =
        \<lparr>requestedAt = Some 0, validatedAt = Some 0, pickupScheduledAt = None,
         pickupCompletedAt = None, inspectionStartedAt = None, inspectionCompletedAt = None,
         refundProcessedAt = None, completedAt = None\<rparr>,
      rr_notes = []\<rparr>"

definition sampleWorld :: "ReturnStatus \<Rightarrow> World" where
  "sampleWorld st =
     \<lparr>returnDocs = [sampleReturn st], orderDocs = [deliveredOrder 0], refundDocs = [],
      sent = []\<rparr>"

definition emptyWorld :: "date \<Rightarrow> World" where
  "emptyWorld d = \<lparr>returnDocs = [], orderDocs = [deliveredOrder d], refundDocs = [], sent = []\<rparr>"

definition sampleEnv :: Env where
  "sampleEnv =
     \<lparr>env_now = 864000000,
      env_product = (\<lambda>s. ProductReply True (Some True)),
      env_borzo = None,
      env_user = Some \<lparr>bank_details = Some \<lparr>account_number = Some ''1234567890'',
                   ifsc_code = Some ''HDFC0000001'',
                   bank_account_holder_name = Some ''A Customer''\<rparr>\<rparr>,
      env_payments = [\<lparr>payment_oid = 3, payment_id = Some ''pay_1''\<rparr>],
      env_contact = Some ''cont_1'',
      env_fund = Some ''fa_1'',
      env_payout = None,
      env_paymentDetails = Some \<lparr>pd_amount = Some 50000, pd_amount_refunded = Some 0\<rparr>,
      env_refund = Some \<lparr>rd_id = ''rfnd_1'', rd_currency = Some ''INR'',
                    rd_status = Some ''processed'', rd_error_description = None\<rparr>,
      env_newReturnId = 11,
      env_newRefundId = 21\<rparr>"

definition sampleCreate :: CreateRequest where
  "sampleCreate =
     \<lparr>body_orderId = Some 1, body_sku = Some ''A'', body_quantity = Some 2,
      body_returnReason = Some ''Damaged'', body_returnDescription = None,
      body_returnImages = [], req_userId = Some 5, body_customerId = None\<rparr>"

section \<open>Properties of the SLA calculator\<close>

lemma setHours_add: "setHours t (getHours t + h) = t + h * 3600000"
  by (simp add: setHours_def)

lemma addDays_day: "addDays t 1 div 86400000 = t div 86400000 + 1"
  by (simp add: addDays_def)

lemma expectedTime_hoursAdded:
  "(case expected_hours ty of
      None \<Rightarrow> od
    | Some h \<Rightarrow> if h = 0 then od else setHours od (getHours od + h))
   = od + hoursAdded ty * 3600000"
  by (simp add: hoursAdded_def setHours_add split: option.split)

lemma calculate_unfold:
  "sla_type sla = Some ty \<Longrightarrow>
   calculateExpectedFulfillmentTime od (Some sla) =
     (let expectedTime = od + hoursAdded ty * 3600000
      in Some
           (case dispatch_hours sla of
              None \<Rightarrow> expectedTime
            | Some dh \<Rightarrow>
                if getHours expectedTime < dispatch_start dh
                then setHoursSharp expectedTime (dispatch_start dh)
                else if getHours expectedTime > dispatch_end dh
                then setHoursSharp (addDays expectedTime 1) (dispatch_start dh)
                else expectedTime))"
  by (simp add: calculateExpectedFulfillmentTime_def expectedTime_hoursAdded)

lemma middleware_calculate_same:
  "middleware_calculateExpectedFulfillmentTime = calculateExpectedFulfillmentTime"
  by (intro ext)
    (simp add: middleware_calculateExpectedFulfillmentTime_def
      calculateExpectedFulfillmentTime_def)

lemma before_start_is_forward:
  assumes "getHours t < s"
  shows "t < setHoursSharp t s"
proof -
  have "(t mod 86400000) div 3600000 < s"
    using assms by (simp add: getHours_def)
  then have "t mod 86400000 < s * 3600000"
    by (simp add: div_less_iff_less_mult)
  moreover have "(t div 86400000) * 86400000 + t mod 86400000 = t"
    by (rule div_mult_mod_eq)
  ultimately show ?thesis
    unfolding setHoursSharp_def by linarith
qed

text \<open>
  Claim C6. The calculator returns null exactly when no SLA (or no SLA type) is
  configured. Otherwise, with \<open>t\<close> the order date plus the expected hours: without a
  dispatch window the result is \<open>t\<close>; with a window, an hour of day before the start
  gives the start hour sharp on the same day (a later instant), an hour of day after the
  end gives the start hour sharp on the next day, and an hour of day from start to end
  leaves \<open>t\<close> as it is. Both copies of the function agree.
\<close>

theorem sla_calculator_window:
  "(calculateExpectedFulfillmentTime od dealerSLA = None) =
     (case dealerSLA of None \<Rightarrow> True | Some sla \<Rightarrow> sla_type sla = None)
   \<and> middleware_calculateExpectedFulfillmentTime od dealerSLA =
       calculateExpectedFulfillmentTime od dealerSLA
   \<and> (\<forall>sla ty t.
         dealerSLA = Some sla \<and> sla_type sla = Some ty
           \<and> t = od + hoursAdded ty * 3600000 \<longrightarrow>
         (dispatch_hours sla = None \<longrightarrow>
            calculateExpectedFulfillmentTime od dealerSLA = Some t)
         \<and> (\<forall>dh. dispatch_hours sla = Some dh \<longrightarrow>
               (getHours t < dispatch_start dh \<longrightarrow>
                  calculateExpectedFulfillmentTime od dealerSLA =
                    Some ((t div 86400000) * 86400000 + dispatch_start dh * 3600000)
                  \<and> t < (t div 86400000) * 86400000 + dispatch_start dh * 3600000)
               \<and> (dispatch_start dh \<le> dispatch_end dh \<and> dispatch_end dh < getHours t \<longrightarrow>
                  calculateExpectedFulfillmentTime od dealerSLA =
                    Some ((t div 86400000 + 1) * 86400000 + dispatch_start dh * 3600000))
               \<and> (dispatch_start dh \<le> getHours t \<and> getHours t \<le> dispatch_end dh \<longrightarrow>
                  calculateExpectedFulfillmentTime od dealerSLA = Some t)))"
proof (intro conjI allI impI)
  show "(calculateExpectedFulfillmentTime od dealerSLA = None) =
     (case dealerSLA of None \<Rightarrow> True | Some sla \<Rightarrow> sla_type sla = None)"
    by (simp add: calculateExpectedFulfillmentTime_def Let_def split: option.split)
next
  show "middleware_calculateExpectedFulfillmentTime od dealerSLA =
       calculateExpectedFulfillmentTime od dealerSLA"
    by (simp add: middleware_calculate_same)
next
  fix sla ty t
  assume h: "dealerSLA = Some sla \<and> sla_type sla = Some ty
    \<and> t = od + hoursAdded ty * 3600000"
  assume "dispatch_hours sla = None"
  then show "calculateExpectedFulfillmentTime od dealerSLA = Some t"
    using h by (simp add: calculate_unfold)
next
  fix sla ty t dh
  assume h: "dealerSLA = Some sla \<and> sla_type sla = Some ty
    \<and> t = od + hoursAdded ty * 3600000"
  assume dh: "dispatch_hours sla = Some dh" and lt: "getHours t < dispatch_start dh"
  show "calculateExpectedFulfillmentTime od dealerSLA =
      Some ((t div 86400000) * 86400000 + dispatch_start dh * 3600000)"
    using h dh lt by (simp add: calculate_unfold setHoursSharp_def)
  show "t < (t div 86400000) * 86400000 + dispatch_start dh * 3600000"
    using before_start_is_forward [OF lt] by (simp add: setHoursSharp_def)
next
  fix sla ty t dh
  assume h: "dealerSLA = Some sla \<and> sla_type sla = Some ty
    \<and> t = od + hoursAdded ty * 3600000"
  assume dh: "dispatch_hours sla = Some dh"
    and gt: "dispatch_start dh \<le> dispatch_end dh \<and> dispatch_end dh < getHours t"
  then have "\<not> getHours t < dispatch_start dh"
    by linarith
  then show "calculateExpectedFulfillmentTime od dealerSLA =
      Some ((t div 86400000 + 1) * 86400000 + dispatch_start dh * 3600000)"
    using h dh gt
    by (simp add: calculate_unfold setHoursSharp_def addDays_day)
next
  fix sla ty t dh
  assume h: "dealerSLA = Some sla \<and> sla_type sla = Some ty
    \<and> t = od + hoursAdded ty * 3600000"
  assume dh: "dispatch_hours sla = Some dh"
    and "dispatch_start dh \<le> getHours t \<and> getHours t \<le> dispatch_end dh"
  then show "calculateExpectedFulfillmentTime od dealerSLA = Some t"
    using h by (simp add: calculate_unfold)
qed

theorem sla_calculator_window_witness:
  "calculateExpectedFulfillmentTime 0
     (Some \<lparr>is_active = True, sla_type = Some \<lparr>expected_hours = Some 30\<rparr>,
        dispatch_hours = Some \<lparr>dispatch_start = 9, dispatch_end = 18\<rparr>\<rparr>)
   = Some 118800000
   \<and> calculateExpectedFulfillmentTime 0
     (Some \<lparr>is_active = True, sla_type = Some \<lparr>expected_hours = Some 44\<rparr>,
        dispatch_hours = Some \<lparr>dispatch_start = 9, dispatch_end = 18\<rparr>\<rparr>)
   = Some 205200000
   \<and> calculateExpectedFulfillmentTime 0
     (Some \<lparr>is_active = True, sla_type = Some \<lparr>expected_hours = Some 36\<rparr>,
        dispatch_hours = Some \<lparr>dispatch_start = 9, dispatch_end = 18\<rparr>\<rparr>)
   = Some 129600000
   \<and> calculateExpectedFulfillmentTime 0
     (Some \<lparr>is_active = True, sla_type = Some \<lparr>expected_hours = Some 36\<rparr>,
        dispatch_hours = None\<rparr>)
   = Some 129600000
   \<and> calculateExpectedFulfillmentTime 0
     (Some \<lparr>is_active = True, sla_type = None, dispatch_hours = None\<rparr>)
   = None"
  using
    sla_calculator_window [of 0
      "Some \<lparr>is_active = True, sla_type = Some \<lparr>expected_hours = Some 30\<rparr>,
         dispatch_hours = Some \<lparr>dispatch_start = 9, dispatch_end = 18\<rparr>\<rparr>"]
    sla_calculator_window [of 0
      "Some \<lparr>is_active = True, sla_type = Some \<lparr>expected_hours = Some 44\<rparr>,
         dispatch_hours = Some \<lparr>dispatch_start = 9, dispatch_end = 18\<rparr>\<rparr>"]
    sla_calculator_window [of 0
      "Some \<lparr>is_active = True, sla_type = Some \<lparr>expected_hours = Some 36\<rparr>,
         dispatch_hours = Some \<lparr>dispatch_start = 9, dispatch_end = 18\<rparr>\<rparr>"]
    sla_calculator_window [of 0
      "Some \<lparr>is_active = True, sla_type = Some \<lparr>expected_hours = Some 36\<rparr>,
         dispatch_hours = None\<rparr>"]
    sla_calculator_window [of 0
      "Some \<lparr>is_active = True, sla_type = None, dispatch_hours = None\<rparr>"]
  by (simp add: hoursAdded_def getHours_def)

section \<open>Properties of the SLA violation engine\<close>


text \<open>The equations that evaluate the engine on the sample data.\<close>

lemmas sla_eval =
  checkOrderSLAViolation_def checkSLAViolationOnPacking_def checkSKUSLAViolation_def
  resolveDealerId_def orElse_def calculateExpectedFulfillmentTime_def setHours_def getHours_def
  Math_round_def isPacked_def isPackedActive_def skuPackedAt_def orderDateOf_def
  recordNewSkuViolations_def existingViolations_def recordSKUViolations_def toDocument_def
  maxViolationOf_def emptyCheck_def existingOrderViolation_def updateOrderWithSLAViolation_def
  sampleSLA_def sampleItem_def sampleOrder_def sampleState_def Let_def

lemma Math_round_minutes: "Math_round (real_of_int d / 60000) = (d + 30000) div 60000"
proof -
  have "real_of_int d / 60000 + 1 / 2 = real_of_int (d + 30000) / real_of_int 60000"
    by simp
  then show ?thesis
    unfolding Math_round_def by (simp only: floor_divide_of_int_eq)
qed

lemma resolveDealerId_sku_level:
  "dealerMapped skuItem = dm # rest \<Longrightarrow> dealerId dm = Some d \<Longrightarrow>
   resolveDealerId order skuItem s = Some d"
  by (simp add: resolveDealerId_def orElse_def)

lemma resolveDealerId_order_level:
  "dealerMapped skuItem = [] \<or> (\<exists>dm rest. dealerMapped skuItem = dm # rest \<and> dealerId dm = None) \<Longrightarrow>
   resolveDealerId order skuItem s =
     orElse (case find (\<lambda>dm. dm_sku dm = Some s) (dealerMapping order) of
               None \<Rightarrow> None | Some dm \<Rightarrow> dealerId dm)
            (case dealerMapping order of [] \<Rightarrow> None | dm # _ \<Rightarrow> dealerId dm)"
  by (auto simp add: resolveDealerId_def orElse_def)

lemma checkSKU_guards:
  assumes "dealerMapping order \<noteq> []"
    and "find (\<lambda>i. sku i = s) (skus order) = Some skuItem"
    and "resolveDealerId order skuItem s = Some d"
    and "slaOf d = Some dealerSLA" and "is_active dealerSLA"
    and "calculateExpectedFulfillmentTime (orderDateOf now order) (Some dealerSLA) = Some expected"
  shows "checkSKUSLAViolation slaOf now order s p =
     (if Math_round (real_of_int (p - expected) / 60000) > 0
      then Some \<lparr>dealer_id = d, order_id = order_oid order, v_sku = Some s,
             expected_fulfillment_time = expected, actual_fulfillment_time = p,
             violation_minutes = Math_round (real_of_int (p - expected) / 60000)\<rparr>
      else None)"
  using assms by (simp add: checkSKUSLAViolation_def Let_def)

lemma checkSKU_no_order_mapping:
  "dealerMapping order = [] \<Longrightarrow> checkSKUSLAViolation slaOf now order s p = None"
  by (simp add: checkSKUSLAViolation_def)

lemma rounded_minutes_positive:
  "(Math_round (real_of_int d / 60000) > 0) = (30000 \<le> d)"
proof -
  have "(0 < (d + 30000) div 60000) = (60000 \<le> d + 30000)"
    by (rule pos_imp_zdiv_pos_iff) simp
  then show ?thesis
    by (simp add: Math_round_minutes)
qed

text \<open>
  Claim C7, as the code has it. The dealer of a checked SKU is the one mapped on the SKU
  item when there is one, whatever the order-level mapping says, and the order-level
  mapping (the entry of the SKU, else the first entry) otherwise; but an order with an
  empty order-level mapping is given no violation before any dealer is looked up. Once
  the dealer has an active SLA with an expected time, violationMinutes is the packing
  time minus the expected time in minutes rounded to the nearest whole minute by
  \<open>Math.round\<close> (a half upwards), and a violation is reported exactly when that rounded
  violationMinutes is positive, that is when the SKU is packed 30 seconds or more after
  the expected time; the reported object carries that dealer, the two times and the
  minutes.
\<close>

theorem sku_check_dealer_and_minutes:
  "(\<forall>dm rest d'. dealerMapped skuItem = dm # rest \<and> dealerId dm = Some d' \<longrightarrow>
       resolveDealerId order skuItem s = Some d')
   \<and> (dealerMapped skuItem = [] \<or> (\<exists>dm rest. dealerMapped skuItem = dm # rest \<and> dealerId dm = None) \<longrightarrow>
       resolveDealerId order skuItem s =
         orElse (case find (\<lambda>dm. dm_sku dm = Some s) (dealerMapping order) of
                   None \<Rightarrow> None | Some dm \<Rightarrow> dealerId dm)
                (case dealerMapping order of [] \<Rightarrow> None | dm # _ \<Rightarrow> dealerId dm))
   \<and> (dealerMapping order = [] \<longrightarrow> checkSKUSLAViolation slaOf now order s p = None)
   \<and> (\<forall>d dealerSLA expected.
         dealerMapping order \<noteq> []
         \<and> find (\<lambda>i. sku i = s) (skus order) = Some skuItem
         \<and> resolveDealerId order skuItem s = Some d
         \<and> slaOf d = Some dealerSLA \<and> is_active dealerSLA
         \<and> calculateExpectedFulfillmentTime (orderDateOf now order) (Some dealerSLA) = Some expected
         \<longrightarrow>
         (checkSKUSLAViolation slaOf now order s p \<noteq> None)
            = (Math_round (real_of_int (p - expected) / 60000) > 0)
         \<and> (checkSKUSLAViolation slaOf now order s p \<noteq> None) = (30000 \<le> p - expected)
         \<and> (\<forall>v. checkSKUSLAViolation slaOf now order s p = Some v \<longrightarrow>
               dealer_id v = d \<and> order_id v = order_oid order \<and> v_sku v = Some s
               \<and> expected_fulfillment_time v = expected \<and> actual_fulfillment_time v = p
               \<and> violation_minutes v = Math_round (real_of_int (p - expected) / 60000))
         \<and> Math_round (real_of_int (p - expected) / 60000) = (p - expected + 30000) div 60000)"
proof (intro conjI allI impI)
  fix dm rest d'
  assume "dealerMapped skuItem = dm # rest \<and> dealerId dm = Some d'"
  then show "resolveDealerId order skuItem s = Some d'"
    by (simp add: resolveDealerId_sku_level)
next
  assume "dealerMapped skuItem = [] \<or> (\<exists>dm rest. dealerMapped skuItem = dm # rest \<and> dealerId dm = None)"
  then show "resolveDealerId order skuItem s =
         orElse (case find (\<lambda>dm. dm_sku dm = Some s) (dealerMapping order) of
                   None \<Rightarrow> None | Some dm \<Rightarrow> dealerId dm)
                (case dealerMapping order of [] \<Rightarrow> None | dm # _ \<Rightarrow> dealerId dm)"
    by (rule resolveDealerId_order_level)
next
  assume "dealerMapping order = []"
  then show "checkSKUSLAViolation slaOf now order s p = None"
    by (rule checkSKU_no_order_mapping)
next
  fix d dealerSLA expected
  assume g: "dealerMapping order \<noteq> []
         \<and> find (\<lambda>i. sku i = s) (skus order) = Some skuItem
         \<and> resolveDealerId order skuItem s = Some d
         \<and> slaOf d = Some dealerSLA \<and> is_active dealerSLA
         \<and> calculateExpectedFulfillmentTime (orderDateOf now order) (Some dealerSLA) = Some expected"
  then have eq: "checkSKUSLAViolation slaOf now order s p =
     (if Math_round (real_of_int (p - expected) / 60000) > 0
      then Some \<lparr>dealer_id = d, order_id = order_oid order, v_sku = Some s,
             expected_fulfillment_time = expected, actual_fulfillment_time = p,
             violation_minutes = Math_round (real_of_int (p - expected) / 60000)\<rparr>
      else None)"
    by (simp add: checkSKU_guards)
  show "(checkSKUSLAViolation slaOf now order s p \<noteq> None)
            = (Math_round (real_of_int (p - expected) / 60000) > 0)"
    by (simp add: eq)
  show "(checkSKUSLAViolation slaOf now order s p \<noteq> None) = (30000 \<le> p - expected)"
  proof -
    have "(checkSKUSLAViolation slaOf now order s p \<noteq> None)
        = (Math_round (real_of_int (p - expected) / 60000) > 0)"
      by (simp add: eq)
    then show ?thesis
      by (simp only: rounded_minutes_positive)
  qed
  show "Math_round (real_of_int (p - expected) / 60000) = (p - expected + 30000) div 60000"
    by (rule Math_round_minutes)
  fix v
  assume "checkSKUSLAViolation slaOf now order s p = Some v"
  then have v: "v = \<lparr>dealer_id = d, order_id = order_oid order, v_sku = Some s,
             expected_fulfillment_time = expected, actual_fulfillment_time = p,
             violation_minutes = Math_round (real_of_int (p - expected) / 60000)\<rparr>"
    by (simp add: eq split: if_splits)
  show "dealer_id v = d" "order_id v = order_oid order" "v_sku v = Some s"
    "expected_fulfillment_time v = expected" "actual_fulfillment_time v = p"
    "violation_minutes v = Math_round (real_of_int (p - expected) / 60000)"
    by (simp_all add: v)
qed

theorem sku_check_dealer_and_minutes_witness:
  "resolveDealerId (sampleOrder 86400000) (sampleItem ''A'' 87000000) ''A'' = Some 7
   \<and> checkSKUSLAViolation sampleSLA 0 (sampleOrder 86400000) ''A'' 87000000 \<noteq> None
   \<and> Math_round (real_of_int (87000000 - 86400000) / 60000) = 10
   \<and> Math_round (real_of_int (87000000 - 86400000) / 60000) > 0"
proof -
  note t = sku_check_dealer_and_minutes [where skuItem = "sampleItem ''A'' 87000000"
      and order = "sampleOrder 86400000" and s = "''A''" and slaOf = sampleSLA and now = 0
      and p = 87000000]
  have a: "resolveDealerId (sampleOrder 86400000) (sampleItem ''A'' 87000000) ''A'' = Some 7"
    using t [THEN conjunct1, rule_format, of "\<lparr>dm_sku = None, dealerId = Some 7\<rparr>" "[]" 7]
    by (simp add: sampleItem_def)
  have g: "dealerMapping (sampleOrder 86400000) \<noteq> []
     \<and> find (\<lambda>i. sku i = ''A'') (skus (sampleOrder 86400000)) = Some (sampleItem ''A'' 87000000)
     \<and> resolveDealerId (sampleOrder 86400000) (sampleItem ''A'' 87000000) ''A'' = Some 7
     \<and> sampleSLA 7 = Some \<lparr>is_active = True, sla_type = Some \<lparr>expected_hours = Some 24\<rparr>,
             dispatch_hours = None\<rparr>
     \<and> is_active \<lparr>is_active = True, sla_type = Some \<lparr>expected_hours = Some 24\<rparr>,
             dispatch_hours = None\<rparr>
     \<and> calculateExpectedFulfillmentTime (orderDateOf 0 (sampleOrder 86400000))
           (Some \<lparr>is_active = True, sla_type = Some \<lparr>expected_hours = Some 24\<rparr>,
             dispatch_hours = None\<rparr>) = Some 86400000"
    using a by (simp add: sla_eval)
  have b: "(checkSKUSLAViolation sampleSLA 0 (sampleOrder 86400000) ''A'' 87000000 \<noteq> None)
      = (Math_round (real_of_int (87000000 - 86400000) / 60000) > 0)"
    and c: "Math_round (real_of_int (87000000 - 86400000) / 60000)
      = (87000000 - 86400000 + 30000) div 60000"
    using t [THEN conjunct2, THEN conjunct2, THEN conjunct2, rule_format, OF g] by blast+
  show ?thesis
    using a b c by simp
qed

text \<open>
  Where the claim as worded fails. SKU B of the sample order, packed 29.999 seconds after
  its expected time of 86400000, is late by a positive number of minutes, yet its rounded
  violationMinutes is 0 and no violation is reported; packed 30 seconds late it is
  reported with 1 minute. And SKU A, 10 minutes late with dealer 7 mapped on the SKU item,
  is given no violation once the order-level dealer mapping is empty.
\<close>

theorem sku_check_sub_minute_counterexample:
  "calculateExpectedFulfillmentTime (orderDateOf 0 (sampleOrder 86429999)) (sampleSLA 7)
     = Some 86400000
   \<and> 0 < real_of_int (86429999 - 86400000) / 60000
   \<and> packedAt (sampleItem ''B'' 86429999) = Some 86429999
   \<and> checkSKUSLAViolation sampleSLA 0 (sampleOrder 86429999) ''B'' 86429999 = None
   \<and> map_option violation_minutes
         (checkSKUSLAViolation sampleSLA 0 (sampleOrder 86430000) ''B'' 86430000) = Some 1
   \<and> dealerMapped (sampleItem ''A'' 87000000) = [\<lparr>dm_sku = None, dealerId = Some 7\<rparr>]
   \<and> checkSKUSLAViolation sampleSLA 0 (sampleOrder 86400000) ''A'' 87000000 \<noteq> None
   \<and> checkSKUSLAViolation sampleSLA 0 ((sampleOrder 86400000)\<lparr>dealerMapping := []\<rparr>) ''A''
         87000000 = None"
  by (simp add: sla_eval)

lemma checkPackedSkus_eq:
  "checkPackedSkus slaOf now order pk xs (svs, allV, anyV) =
     (svs @ violatedSkus slaOf now order pk xs,
      allV \<and> list_all (\<lambda>i. checkSKUSLAViolation slaOf now order (sku i) (skuPackedAt now pk i) \<noteq> None) xs,
      anyV \<or> list_ex (\<lambda>i. checkSKUSLAViolation slaOf now order (sku i) (skuPackedAt now pk i) \<noteq> None) xs)"
proof (induction xs arbitrary: svs allV anyV)
  case Nil
  then show ?case by (simp add: violatedSkus_def)
next
  case (Cons i xs)
  show ?case
  proof (cases "checkSKUSLAViolation slaOf now order (sku i) (skuPackedAt now pk i)")
    case None
    then show ?thesis by (simp add: Cons.IH violatedSkus_def)
  next
    case (Some v)
    then show ?thesis by (simp add: Cons.IH violatedSkus_def)
  qed
qed

lemma length_violatedSkus_all:
  "list_all (\<lambda>i. checkSKUSLAViolation slaOf now order (sku i) (skuPackedAt now pk i) \<noteq> None) xs \<Longrightarrow>
   length (violatedSkus slaOf now order pk xs) = length xs"
  by (induction xs) (auto simp: violatedSkus_def)

lemma violatedSkus_Nil [simp]: "violatedSkus slaOf now order pk [] = []"
  by (simp add: violatedSkus_def)

lemma list_all_ex: "xs \<noteq> [] \<Longrightarrow> list_all P xs \<Longrightarrow> list_ex P xs"
  by (cases xs) auto

lemma packing_skuViolations:
  "skuViolations (checkSLAViolationOnPacking slaOf now order None None) =
     violatedSkus slaOf now order None (filter isPacked (skus order))"
  by (simp add: checkSLAViolationOnPacking_def emptyCheck_def checkPackedSkus_eq Let_def)

lemma packing_hasViolation:
  "hasViolation (checkSLAViolationOnPacking slaOf now order None None) =
     (filter isPacked (skus order) \<noteq> []
      \<and> list_all (\<lambda>i. checkSKUSLAViolation slaOf now order (sku i) (skuPackedAt now None i) \<noteq> None)
           (filter isPacked (skus order)))"
  by (auto simp add: checkSLAViolationOnPacking_def emptyCheck_def checkPackedSkus_eq Let_def
      length_violatedSkus_all list_all_ex)

lemma isPackedActive_eq: "isPackedActive = isPacked"
  by (intro ext) (auto simp: isPackedActive_def isPacked_def)

lemma recordNew_eq:
  "recordNewSkuViolations orderId svs docs =
     docs @ map toDocument (map snd
       (filter (\<lambda>sv. Some (fst sv) \<notin> set (map v_sku (existingViolations orderId (map fst svs) docs))) svs))"
  by (simp add: recordNewSkuViolations_def recordSKUViolations_def Let_def)

lemma checkOrder_ledger:
  "ledger (snd (checkOrderSLAViolation slaOf now order st)) =
     recordNewSkuViolations (order_oid order)
       (violatedSkus slaOf now order None (filter isPacked (skus order))) (ledger st)"
  by (simp add: checkOrderSLAViolation_def Let_def isPackedActive_eq packing_skuViolations
      recordNewSkuViolations_def split: option.split)

lemma checkOrder_orders_unchanged:
  "\<not> hasViolation (checkSLAViolationOnPacking slaOf now order None None) \<Longrightarrow>
   orders (snd (checkOrderSLAViolation slaOf now order st)) = orders st"
  by (simp add: checkOrderSLAViolation_def Let_def)

lemma checkOrder_flag_not_violated:
  assumes "\<not> hasViolation (checkSLAViolationOnPacking slaOf now order None None)"
  shows "fst (checkOrderSLAViolation slaOf now order st) =
     (skuViolations (checkSLAViolationOnPacking slaOf now order None None) \<noteq> [])"
proof (cases "skus order = [] \<or> filter isPacked (skus order) = []")
  case True
  then have "skuViolations (checkSLAViolationOnPacking slaOf now order None None) = []"
    by (auto simp add: packing_skuViolations)
  then show ?thesis
    using True by (auto simp add: checkOrderSLAViolation_def isPackedActive_eq)
next
  case False
  then show ?thesis
    using assms by (simp add: checkOrderSLAViolation_def isPackedActive_eq Let_def)
qed

lemma checkSKU_Some_fields:
  "checkSKUSLAViolation slaOf now order s p = Some v \<Longrightarrow>
   order_id v = order_oid order \<and> v_sku v = Some s"
  by (auto simp add: checkSKUSLAViolation_def Let_def split: if_splits option.splits)

lemma violatedSkus_entries:
  "(s, v) \<in> set (violatedSkus slaOf now order pk xs) \<Longrightarrow>
   order_id v = order_oid order \<and> v_sku v = Some s \<and> s \<in> sku ` set xs"
  by (auto simp add: violatedSkus_def split: option.splits dest: checkSKU_Some_fields [OF sym])

lemma map_fst_violatedSkus:
  "map fst (violatedSkus slaOf now order pk xs) =
   map sku (filter (\<lambda>i. checkSKUSLAViolation slaOf now order (sku i) (skuPackedAt now pk i) \<noteq> None) xs)"
  by (induction xs) (auto simp: violatedSkus_def)

lemma distinct_violatedSkus:
  "distinct (map sku xs) \<Longrightarrow> distinct (map fst (violatedSkus slaOf now order pk xs))"
  by (simp add: map_fst_violatedSkus distinct_map_filter)

lemma length_filter_fst_distinct:
  "distinct (map fst xs) \<Longrightarrow> (s, v) \<in> set xs \<Longrightarrow> length (filter (\<lambda>sv. fst sv = s) xs) = 1"
proof (induction xs)
  case Nil
  then show ?case by simp
next
  case (Cons x xs)
  show ?case
  proof (cases "fst x = s")
    case True
    with Cons.prems have "s \<notin> fst ` set xs" by auto
    then have "filter (\<lambda>sv. fst sv = s) xs = []"
      by (auto simp: filter_empty_conv)
    with True show ?thesis by simp
  next
    case False
    with Cons show ?thesis by auto
  qed
qed

lemma existing_has_sku:
  "s \<in> set ss \<Longrightarrow>
   (Some s \<in> set (map v_sku (existingViolations orderId ss docs))) = (unresolvedFor orderId s docs \<noteq> [])"
  by (auto simp add: existingViolations_def unresolvedFor_def filter_empty_conv image_iff
      split: option.splits)

lemma unresolvedFor_append:
  "unresolvedFor orderId s (xs @ ys) = unresolvedFor orderId s xs @ unresolvedFor orderId s ys"
  by (simp add: unresolvedFor_def)

lemma unresolvedFor_new:
  assumes "\<forall>sv \<in> set news. order_id (snd sv) = orderId \<and> v_sku (snd sv) = Some (fst sv) \<and> fst sv \<noteq> []"
  shows "length (unresolvedFor orderId s (map toDocument (map snd news)))
       = length (filter (\<lambda>sv. fst sv = s) news)"
  using assms
  by (induction news) (auto simp: unresolvedFor_def toDocument_def)

lemma orderLevel_new:
  assumes "\<forall>sv \<in> set news. v_sku (snd sv) = Some (fst sv) \<and> fst sv \<noteq> []"
  shows "orderLevelDocs orderId (docs @ map toDocument (map snd news)) = orderLevelDocs orderId docs"
  using assms
  by (induction news) (auto simp: orderLevelDocs_def toDocument_def)

lemma recordNew_count:
  assumes d: "distinct (map fst svs)"
    and e: "\<forall>sv \<in> set svs. order_id (snd sv) = orderId \<and> v_sku (snd sv) = Some (fst sv) \<and> fst sv \<noteq> []"
    and inv: "length (unresolvedFor orderId s docs) \<le> 1"
    and m: "(s, v) \<in> set svs"
  shows "length (unresolvedFor orderId s (recordNewSkuViolations orderId svs docs)) = 1"
proof -
  let ?E = "set (map v_sku (existingViolations orderId (map fst svs) docs))"
  let ?news = "filter (\<lambda>sv. Some (fst sv) \<notin> ?E) svs"
  have s_in: "s \<in> set (map fst svs)"
    using m by force
  have ex: "(Some s \<in> ?E) = (unresolvedFor orderId s docs \<noteq> [])"
    using s_in by (rule existing_has_sku)
  have news_ok: "\<forall>sv \<in> set ?news. order_id (snd sv) = orderId \<and> v_sku (snd sv) = Some (fst sv) \<and> fst sv \<noteq> []"
    using e by simp
  have one: "length (filter (\<lambda>sv. fst sv = s) svs) = 1"
    using d m by (rule length_filter_fst_distinct)
  have "filter (\<lambda>sv. fst sv = s) ?news = (if Some s \<in> ?E then [] else filter (\<lambda>sv. fst sv = s) svs)"
    by (auto simp: filter_empty_conv intro: filter_cong)
  then have cnt: "length (filter (\<lambda>sv. fst sv = s) ?news) = (if Some s \<in> ?E then 0 else 1)"
    using one by simp
  have "length (unresolvedFor orderId s (recordNewSkuViolations orderId svs docs))
      = length (unresolvedFor orderId s docs) + length (filter (\<lambda>sv. fst sv = s) ?news)"
    by (simp only: recordNew_eq unresolvedFor_append length_append unresolvedFor_new [OF news_ok])
  also have "\<dots> = 1"
  proof (cases "unresolvedFor orderId s docs = []")
    case True
    then show ?thesis using cnt ex by simp
  next
    case False
    then have "length (unresolvedFor orderId s docs) = 1"
      using inv by (cases "unresolvedFor orderId s docs") auto
    then show ?thesis using cnt ex False by simp
  qed
  finally show ?thesis .
qed

text \<open>
  Claim C2. Take an order whose SKU lines have distinct, non-empty SKU codes, and a
  ledger with at most one unresolved document per (order, sku). If some packed SKU is not
  violated, the order-level outcome \<open>hasViolation\<close> of the check is false, the per-order
  check leaves the orders (and so the SLA summary) as they are and adds no order-level
  document, and afterwards every violated packed SKU has exactly one unresolved
  SKU-level document. The flag \<open>checkOrderSLAViolation\<close> returns is a different one: it
  tells whether any SKU-level violation was found.
\<close>

theorem partial_violation_order_not_marked:
  assumes wf: "distinct (map sku (skus order))"
    and ne: "list_all (\<lambda>i. sku i \<noteq> []) (skus order)"
    and inv: "\<forall>s. length (unresolvedFor (order_oid order) s (ledger st)) \<le> 1"
    and i0: "i0 \<in> set (skus order)" "tracking_status i0 = Some ''Packed''" "packedAt i0 = Some p0"
      "checkSKUSLAViolation slaOf now order (sku i0) p0 = None"
  shows "\<not> hasViolation (checkSLAViolationOnPacking slaOf now order None None)
    \<and> fst (checkOrderSLAViolation slaOf now order st)
        = (skuViolations (checkSLAViolationOnPacking slaOf now order None None) \<noteq> [])
    \<and> orders (snd (checkOrderSLAViolation slaOf now order st)) = orders st
    \<and> orderLevelDocs (order_oid order) (ledger (snd (checkOrderSLAViolation slaOf now order st)))
        = orderLevelDocs (order_oid order) (ledger st)
    \<and> (\<forall>i p v. i \<in> set (skus order) \<and> tracking_status i = Some ''Packed''
          \<and> packedAt i = Some p \<and> checkSKUSLAViolation slaOf now order (sku i) p = Some v \<longrightarrow>
          length (unresolvedFor (order_oid order) (sku i)
                    (ledger (snd (checkOrderSLAViolation slaOf now order st)))) = 1)"
proof -
  let ?P = "filter isPacked (skus order)"
  let ?svs = "violatedSkus slaOf now order None ?P"
  have i0P: "i0 \<in> set ?P"
    using i0 by (simp add: isPacked_def)
  have "skuPackedAt now None i0 = p0"
    using i0 by (simp add: skuPackedAt_def)
  then have "\<not> list_all (\<lambda>i. checkSKUSLAViolation slaOf now order (sku i) (skuPackedAt now None i) \<noteq> None) ?P"
    using i0P i0(4) by (auto simp: list_all_iff)
  then have nohv: "\<not> hasViolation (checkSLAViolationOnPacking slaOf now order None None)"
    by (simp add: packing_hasViolation)
  have ent: "\<forall>sv \<in> set ?svs. order_id (snd sv) = order_oid order \<and> v_sku (snd sv) = Some (fst sv) \<and> fst sv \<noteq> []"
  proof
    fix sv assume "sv \<in> set ?svs"
    then have "(fst sv, snd sv) \<in> set ?svs" by simp
    from violatedSkus_entries [OF this]
    have "order_id (snd sv) = order_oid order" "v_sku (snd sv) = Some (fst sv)" "fst sv \<in> sku ` set ?P"
      by simp_all
    moreover from this(3) ne have "fst sv \<noteq> []"
      by (auto simp: list_all_iff)
    ultimately show "order_id (snd sv) = order_oid order \<and> v_sku (snd sv) = Some (fst sv) \<and> fst sv \<noteq> []"
      by simp
  qed
  have dist: "distinct (map fst ?svs)"
    using wf by (intro distinct_violatedSkus) (simp add: distinct_map_filter)
  have ol: "orderLevelDocs (order_oid order) (ledger (snd (checkOrderSLAViolation slaOf now order st)))
        = orderLevelDocs (order_oid order) (ledger st)"
    unfolding checkOrder_ledger recordNew_eq
    by (rule orderLevel_new) (use ent in simp)
  have cnt: "length (unresolvedFor (order_oid order) (sku i)
                    (ledger (snd (checkOrderSLAViolation slaOf now order st)))) = 1"
    if h: "i \<in> set (skus order) \<and> tracking_status i = Some ''Packed''
          \<and> packedAt i = Some p \<and> checkSKUSLAViolation slaOf now order (sku i) p = Some v"
    for i p v
  proof -
    have "i \<in> set ?P" using h by (simp add: isPacked_def)
    moreover have "skuPackedAt now None i = p" using h by (simp add: skuPackedAt_def)
    ultimately have "(sku i, v) \<in> set ?svs"
      using h by (force simp: violatedSkus_def)
    with dist ent inv [rule_format] show ?thesis
      unfolding checkOrder_ledger by (intro recordNew_count) auto
  qed
  show ?thesis
  proof (intro conjI allI impI)
    show "\<not> hasViolation (checkSLAViolationOnPacking slaOf now order None None)"
      by (rule nohv)
    show "fst (checkOrderSLAViolation slaOf now order st)
        = (skuViolations (checkSLAViolationOnPacking slaOf now order None None) \<noteq> [])"
      using nohv by (rule checkOrder_flag_not_violated)
    show "orders (snd (checkOrderSLAViolation slaOf now order st)) = orders st"
      using nohv by (rule checkOrder_orders_unchanged)
    show "orderLevelDocs (order_oid order) (ledger (snd (checkOrderSLAViolation slaOf now order st)))
        = orderLevelDocs (order_oid order) (ledger st)"
      by (rule ol)
  next
    fix i p v
    assume "i \<in> set (skus order) \<and> tracking_status i = Some ''Packed''
          \<and> packedAt i = Some p \<and> checkSKUSLAViolation slaOf now order (sku i) p = Some v"
    then show "length (unresolvedFor (order_oid order) (sku i)
                    (ledger (snd (checkOrderSLAViolation slaOf now order st)))) = 1"
      by (rule cnt)
  qed
qed

theorem partial_violation_order_not_marked_witness:
  "\<not> hasViolation (checkSLAViolationOnPacking sampleSLA 0 (sampleOrder 86400000) None None)
   \<and> orders (snd (checkOrderSLAViolation sampleSLA 0 (sampleOrder 86400000)
         (sampleState 86400000))) = [sampleOrder 86400000]
   \<and> ledger (snd (checkOrderSLAViolation sampleSLA 0 (sampleOrder 86400000)
         (sampleState 86400000)))
       = [\<lparr>dealer_id = 7, order_id = 1, v_sku = Some ''A'',
            expected_fulfillment_time = 86400000, actual_fulfillment_time = 87000000,
            violation_minutes = 10, resolved = False\<rparr>]
   \<and> length (unresolvedFor 1 ''A'' (ledger (snd (checkOrderSLAViolation sampleSLA 0
         (sampleOrder 86400000) (sampleState 86400000))))) = 1
   \<and> orderLevelDocs 1 (ledger (snd (checkOrderSLAViolation sampleSLA 0
         (sampleOrder 86400000) (sampleState 86400000)))) = []"
proof -
  have wf: "distinct (map sku (skus (sampleOrder 86400000)))"
    by (simp add: sampleOrder_def sampleItem_def)
  have ne: "list_all (\<lambda>i. sku i \<noteq> []) (skus (sampleOrder 86400000))"
    by (simp add: sampleOrder_def sampleItem_def)
  have inv: "\<forall>s. length (unresolvedFor (order_oid (sampleOrder 86400000)) s
      (ledger (sampleState 86400000))) \<le> 1"
    by (simp add: sampleState_def unresolvedFor_def)
  have i0: "sampleItem ''B'' 86400000 \<in> set (skus (sampleOrder 86400000))"
    "tracking_status (sampleItem ''B'' 86400000) = Some ''Packed''"
    "packedAt (sampleItem ''B'' 86400000) = Some 86400000"
    "checkSKUSLAViolation sampleSLA 0 (sampleOrder 86400000)
       (sku (sampleItem ''B'' 86400000)) 86400000 = None"
    by (simp_all add: sla_eval)
  note t = partial_violation_order_not_marked [OF wf ne inv i0]
  have a: "sampleItem ''A'' 87000000 \<in> set (skus (sampleOrder 86400000))
     \<and> tracking_status (sampleItem ''A'' 87000000) = Some ''Packed''
     \<and> packedAt (sampleItem ''A'' 87000000) = Some 87000000
     \<and> checkSKUSLAViolation sampleSLA 0 (sampleOrder 86400000)
          (sku (sampleItem ''A'' 87000000)) 87000000
        = Some \<lparr>dealer_id = 7, order_id = 1, v_sku = Some ''A'',
            expected_fulfillment_time = 86400000, actual_fulfillment_time = 87000000,
            violation_minutes = 10\<rparr>"
    by (simp add: sla_eval)
  have one: "length (unresolvedFor 1 ''A'' (ledger (snd (checkOrderSLAViolation sampleSLA 0
         (sampleOrder 86400000) (sampleState 86400000))))) = 1"
    using t [THEN conjunct2, THEN conjunct2, THEN conjunct2, THEN conjunct2, rule_format, OF a]
    by (simp add: sampleOrder_def sampleItem_def)
  have led: "ledger (snd (checkOrderSLAViolation sampleSLA 0 (sampleOrder 86400000)
         (sampleState 86400000)))
       = [\<lparr>dealer_id = 7, order_id = 1, v_sku = Some ''A'',
            expected_fulfillment_time = 86400000, actual_fulfillment_time = 87000000,
            violation_minutes = 10, resolved = False\<rparr>]"
    by (simp add: sla_eval)
  show ?thesis
    using t one led by (simp add: sampleState_def orderLevelDocs_def)
qed

text \<open>
  Claim C1, evaluated on the sample order with both SKUs late (A by 10 minutes, B by 5).
  The order-level outcome is true and the sweep reports one violation, writes one
  unresolved SKU-level document for each of the two SKUs and patches the SLA summary of
  the order; a second sweep over the resulting state leaves the ledger as it is. The
  ledger holds no order-level (sku = null) document after either sweep: the sweep
  looks for one but never writes one.
\<close>

theorem full_violation_no_order_level_record:
  "hasViolation (checkSLAViolationOnPacking sampleSLA 0 (sampleOrder 86700000) None None)
   \<and> fst (checkAllActiveOrders sampleSLA 0 (orders (sampleState 86700000)) (0, 0)
         (sampleState 86700000)) = (1, 1)
   \<and> ledger (snd (checkAllActiveOrders sampleSLA 0 (orders (sampleState 86700000)) (0, 0)
         (sampleState 86700000)))
       = [\<lparr>dealer_id = 7, order_id = 1, v_sku = Some ''A'',
            expected_fulfillment_time = 86400000, actual_fulfillment_time = 87000000,
            violation_minutes = 10, resolved = False\<rparr>,
          \<lparr>dealer_id = 7, order_id = 1, v_sku = Some ''B'',
            expected_fulfillment_time = 86400000, actual_fulfillment_time = 86700000,
            violation_minutes = 5, resolved = False\<rparr>]
   \<and> map slaInfo (orders (snd (checkAllActiveOrders sampleSLA 0
         (orders (sampleState 86700000)) (0, 0) (sampleState 86700000))))
       = [\<lparr>actualFulfillmentTime = Some 86700000, isSLAMet = Some False,
            violationMinutes = Some 5, expectedFulfillmentTime = Some 86400000\<rparr>]
   \<and> orderLevelDocs 1 (ledger (snd (checkAllActiveOrders sampleSLA 0
         (orders (sampleState 86700000)) (0, 0) (sampleState 86700000)))) = []
   \<and> ledger (snd (checkAllActiveOrders sampleSLA 0
         (orders (snd (checkAllActiveOrders sampleSLA 0 (orders (sampleState 86700000)) (0, 0)
            (sampleState 86700000)))) (0, 0)
         (snd (checkAllActiveOrders sampleSLA 0 (orders (sampleState 86700000)) (0, 0)
            (sampleState 86700000)))))
       = ledger (snd (checkAllActiveOrders sampleSLA 0 (orders (sampleState 86700000)) (0, 0)
            (sampleState 86700000)))"
  by (simp add: sla_eval orderLevelDocs_def)

section \<open>Properties of the eligibility evaluator\<close>

lemma eligibility_no_delivery:
  "(case find (\<lambda>i. sku i = s) (skus order) of None \<Rightarrow> None | Some i \<Rightarrow> deliveredAt i) = None
   \<Longrightarrow> \<not> el_isEligible (validateReturnEligibility env order s)"
  by (simp add: validateReturnEligibility_def split: option.splits)

lemma eligibility_delivered:
  assumes "find (\<lambda>i. sku i = s) (skus order) = Some i" and "deliveredAt i = Some d"
  shows "validateReturnEligibility env order s =
     \<lparr>el_isEligible = (env_now env \<le> d + 7 * 86400000 \<and> productReturnable (env_product env s)),
      el_reason =
        (if env_now env \<le> d + 7 * 86400000 \<and> productReturnable (env_product env s)
         then ''Return request is eligible''
         else if \<not> env_now env \<le> d + 7 * 86400000 then ''Return window has expired''
         else ''Product is not returnable''),
      el_isWithinReturnWindow = Some (env_now env \<le> d + 7 * 86400000),
      el_isProductReturnable = Some (productReturnable (env_product env s)),
      el_returnWindowDays = Some 7\<rparr>"
  using assms by (simp add: validateReturnEligibility_def addDays_def Let_def)

text \<open>
  Claim C8. A SKU with no delivery timestamp (or not in the order) is ineligible.
  Otherwise \<open>isEligible\<close> is \<open>now \<le> deliveredAt + 7 days\<close> and \<open>isReturnable\<close>, where a product
  call that throws or answers without \<open>success\<close> counts as not returnable; the reason is
  the window-expiry message whenever the window has expired, also when the product is
  not returnable either.
\<close>

theorem eligibility_window_and_returnable:
  "((case find (\<lambda>i. sku i = s) (skus order) of None \<Rightarrow> None | Some i \<Rightarrow> deliveredAt i) = None
      \<longrightarrow> \<not> el_isEligible (validateReturnEligibility env order s))
   \<and> (\<forall>i d. find (\<lambda>i. sku i = s) (skus order) = Some i \<and> deliveredAt i = Some d \<longrightarrow>
         el_isEligible (validateReturnEligibility env order s)
           = (env_now env \<le> d + 7 * 86400000 \<and> productReturnable (env_product env s))
         \<and> el_isWithinReturnWindow (validateReturnEligibility env order s)
           = Some (env_now env \<le> d + 7 * 86400000)
         \<and> el_isProductReturnable (validateReturnEligibility env order s)
           = Some (productReturnable (env_product env s))
         \<and> (\<not> env_now env \<le> d + 7 * 86400000 \<longrightarrow>
               el_reason (validateReturnEligibility env order s) = ''Return window has expired'')
         \<and> (env_now env \<le> d + 7 * 86400000 \<and> \<not> productReturnable (env_product env s) \<longrightarrow>
               el_reason (validateReturnEligibility env order s) = ''Product is not returnable''))
   \<and> \<not> productReturnable ProductCallFailed
   \<and> (\<forall>r. \<not> productReturnable (ProductReply False r))
   \<and> (\<forall>r. productReturnable (ProductReply True r) = (r = Some True))"
proof (intro conjI allI impI)
  assume "(case find (\<lambda>i. sku i = s) (skus order) of None \<Rightarrow> None | Some i \<Rightarrow> deliveredAt i) = None"
  then show "\<not> el_isEligible (validateReturnEligibility env order s)"
    by (rule eligibility_no_delivery)
next
  fix i d
  assume "find (\<lambda>i. sku i = s) (skus order) = Some i \<and> deliveredAt i = Some d"
  then have eq: "validateReturnEligibility env order s =
     \<lparr>el_isEligible = (env_now env \<le> d + 7 * 86400000 \<and> productReturnable (env_product env s)),
      el_reason =
        (if env_now env \<le> d + 7 * 86400000 \<and> productReturnable (env_product env s)
         then ''Return request is eligible''
         else if \<not> env_now env \<le> d + 7 * 86400000 then ''Return window has expired''
         else ''Product is not returnable''),
      el_isWithinReturnWindow = Some (env_now env \<le> d + 7 * 86400000),
      el_isProductReturnable = Some (productReturnable (env_product env s)),
      el_returnWindowDays = Some 7\<rparr>"
    by (simp add: eligibility_delivered)
  show "el_isEligible (validateReturnEligibility env order s)
           = (env_now env \<le> d + 7 * 86400000 \<and> productReturnable (env_product env s))"
    by (simp add: eq)
  show "el_isWithinReturnWindow (validateReturnEligibility env order s)
           = Some (env_now env \<le> d + 7 * 86400000)"
    by (simp add: eq)
  show "el_isProductReturnable (validateReturnEligibility env order s)
           = Some (productReturnable (env_product env s))"
    by (simp add: eq)
  show "el_reason (validateReturnEligibility env order s) = ''Return window has expired''"
    if "\<not> env_now env \<le> d + 7 * 86400000"
    using that by (simp add: eq)
  show "el_reason (validateReturnEligibility env order s) = ''Product is not returnable''"
    if "env_now env \<le> d + 7 * 86400000 \<and> \<not> productReturnable (env_product env s)"
    using that by (simp add: eq)
next
  show "\<not> productReturnable ProductCallFailed"
    by (simp add: productReturnable_def)
next
  fix r
  show "\<not> productReturnable (ProductReply False r)"
    by (simp add: productReturnable_def)
  show "productReturnable (ProductReply True r) = (r = Some True)"
    by (cases r) (simp_all add: productReturnable_def)
qed

theorem eligibility_window_and_returnable_witness:
  "el_isEligible (validateReturnEligibility sampleEnv (deliveredOrder 0) ''A'') = False
   \<and> el_reason (validateReturnEligibility sampleEnv (deliveredOrder 0) ''A'')
       = ''Return window has expired''
   \<and> el_isProductReturnable (validateReturnEligibility sampleEnv (deliveredOrder 0) ''A'')
       = Some True
   \<and> env_now sampleEnv = 0 + 10 * 86400000"
proof -
  have g: "find (\<lambda>i. sku i = ''A'') (skus (deliveredOrder 0))
        = Some (hd (skus (deliveredOrder 0)))
      \<and> deliveredAt (hd (skus (deliveredOrder 0))) = Some 0"
    by (simp add: deliveredOrder_def)
  note t = eligibility_window_and_returnable [where env = sampleEnv
      and order = "deliveredOrder 0" and s = "''A''",
      THEN conjunct2, THEN conjunct1, rule_format, OF g]
  have n: "env_now sampleEnv = 864000000"
    and p: "productReturnable (env_product sampleEnv ''A'')"
    by (simp_all add: sampleEnv_def productReturnable_def)
  show ?thesis
    using t n p by simp
qed

section \<open>Properties of the return lifecycle\<close>

lemma createChecked_rejects:
  assumes "find (\<lambda>r. rr_orderId r = orderId \<and> rr_sku r = s) (returnDocs w) \<noteq> None
     \<or> findOrder orderId (orderDocs w) = None
     \<or> (\<exists>order. findOrder orderId (orderDocs w) = Some order \<and>
           (customer_userId order \<noteq> Some cid
            \<or> find (\<lambda>i. sku i = s) (skus order) = None
            \<or> (\<exists>i. find (\<lambda>i. sku i = s) (skus order) = Some i \<and> quantity i < qty)))"
  shows "\<exists>msg. createChecked env req orderId s reason cid qty w = (SendError (Message msg), w)"
proof (cases "find (\<lambda>r. rr_orderId r = orderId \<and> rr_sku r = s) (returnDocs w)")
  case (Some a)
  then show ?thesis by (simp add: createChecked_def)
next
  case None
  note noDup = this
  show ?thesis
  proof (cases "findOrder orderId (orderDocs w)")
    case None
    then show ?thesis using noDup by (simp add: createChecked_def)
  next
    case (Some order)
    note ord = this
    show ?thesis
    proof (cases "customer_userId order \<noteq> Some cid")
      case True
      then show ?thesis using noDup ord by (simp add: createChecked_def)
    next
      case False
      note own = this
      show ?thesis
      proof (cases "find (\<lambda>i. sku i = s) (skus order)")
        case None
        then show ?thesis using noDup ord own by (simp add: createChecked_def)
      next
        case (Some i)
        then have "quantity i < qty"
          using assms noDup ord own by auto
        then show ?thesis using noDup ord own Some by (simp add: createChecked_def)
      qed
    qed
  qed
qed

lemma createReturnRequest_missing_or_checked:
  "createReturnRequest env req w = (SendError missingFields, w)
   \<or> (\<exists>orderId s reason cid.
        body_orderId req = Some orderId \<and> body_sku req = Some s \<and> s \<noteq> []
        \<and> body_returnReason req = Some reason \<and> reason \<noteq> []
        \<and> orElse (req_userId req) (body_customerId req) = Some cid
        \<and> createReturnRequest env req w =
            createChecked env req orderId s reason cid
              (case body_quantity req of None \<Rightarrow> 1 | Some q \<Rightarrow> q) w)"
  by (simp add: createReturnRequest_def Let_def split: option.split)

text \<open>
  Claim C9. When a return request for the same (orderId, sku) exists, the order or the
  SKU is not found, the caller is not the customer of the order, or the requested
  quantity (1 by default) exceeds the ordered one, creation answers with an error message
  and the state is the one it started from: no return request is created, no order is
  annotated, nothing is sent. With all required fields present, the duplicate is refused
  with the message of the duplicate check.
\<close>

theorem create_rejects_without_change:
  "(\<forall>orderId s.
      body_orderId req = Some orderId \<and> body_sku req = Some s
      \<and> (find (\<lambda>r. rr_orderId r = orderId \<and> rr_sku r = s) (returnDocs w) \<noteq> None
         \<or> findOrder orderId (orderDocs w) = None
         \<or> (\<exists>order. findOrder orderId (orderDocs w) = Some order \<and>
               (customer_userId order \<noteq> orElse (req_userId req) (body_customerId req)
                \<or> find (\<lambda>i. sku i = s) (skus order) = None
                \<or> (\<exists>i. find (\<lambda>i. sku i = s) (skus order) = Some i
                      \<and> quantity i < (case body_quantity req of None \<Rightarrow> 1 | Some q \<Rightarrow> q)))))
      \<longrightarrow> (\<exists>msg. createReturnRequest env req w = (SendError (Message msg), w)))
   \<and> (\<forall>orderId s reason cid.
        body_orderId req = Some orderId \<and> body_sku req = Some s \<and> s \<noteq> []
        \<and> body_returnReason req = Some reason \<and> reason \<noteq> []
        \<and> orElse (req_userId req) (body_customerId req) = Some cid
        \<and> find (\<lambda>r. rr_orderId r = orderId \<and> rr_sku r = s) (returnDocs w) \<noteq> None
        \<longrightarrow> createReturnRequest env req w =
              (SendError (Message ''Return request already exists for this order and SKU''), w))"
proof (intro conjI allI impI)
  fix orderId s
  assume h: "body_orderId req = Some orderId \<and> body_sku req = Some s
      \<and> (find (\<lambda>r. rr_orderId r = orderId \<and> rr_sku r = s) (returnDocs w) \<noteq> None
         \<or> findOrder orderId (orderDocs w) = None
         \<or> (\<exists>order. findOrder orderId (orderDocs w) = Some order \<and>
               (customer_userId order \<noteq> orElse (req_userId req) (body_customerId req)
                \<or> find (\<lambda>i. sku i = s) (skus order) = None
                \<or> (\<exists>i. find (\<lambda>i. sku i = s) (skus order) = Some i
                      \<and> quantity i < (case body_quantity req of None \<Rightarrow> 1 | Some q \<Rightarrow> q)))))"
  from createReturnRequest_missing_or_checked [of env req w]
  show "\<exists>msg. createReturnRequest env req w = (SendError (Message msg), w)"
  proof
    assume "createReturnRequest env req w = (SendError missingFields, w)"
    then show ?thesis by (simp add: missingFields_def)
  next
    assume "\<exists>orderId s reason cid.
        body_orderId req = Some orderId \<and> body_sku req = Some s \<and> s \<noteq> []
        \<and> body_returnReason req = Some reason \<and> reason \<noteq> []
        \<and> orElse (req_userId req) (body_customerId req) = Some cid
        \<and> createReturnRequest env req w =
            createChecked env req orderId s reason cid
              (case body_quantity req of None \<Rightarrow> 1 | Some q \<Rightarrow> q) w"
    then obtain reason cid where
      c: "orElse (req_userId req) (body_customerId req) = Some cid"
      and e: "createReturnRequest env req w =
            createChecked env req orderId s reason cid
              (case body_quantity req of None \<Rightarrow> 1 | Some q \<Rightarrow> q) w"
      using h by auto
    have "\<exists>msg. createChecked env req orderId s reason cid
              (case body_quantity req of None \<Rightarrow> 1 | Some q \<Rightarrow> q) w = (SendError (Message msg), w)"
      using h c by (intro createChecked_rejects) auto
    then show ?thesis by (simp add: e)
  qed
next
  fix orderId s reason cid
  assume "body_orderId req = Some orderId \<and> body_sku req = Some s \<and> s \<noteq> []
        \<and> body_returnReason req = Some reason \<and> reason \<noteq> []
        \<and> orElse (req_userId req) (body_customerId req) = Some cid
        \<and> find (\<lambda>r. rr_orderId r = orderId \<and> rr_sku r = s) (returnDocs w) \<noteq> None"
  then show "createReturnRequest env req w =
              (SendError (Message ''Return request already exists for this order and SKU''), w)"
    by (auto simp add: createReturnRequest_def createChecked_def Let_def)
qed

theorem create_rejects_without_change_witness:
  "createReturnRequest sampleEnv sampleCreate (sampleWorld Completed)
     = (SendError (Message ''Return request already exists for this order and SKU''),
        sampleWorld Completed)
   \<and> (\<exists>msg. createReturnRequest sampleEnv (sampleCreate\<lparr>body_quantity := Some 3\<rparr>) (emptyWorld 0)
        = (SendError (Message msg), emptyWorld 0))
   \<and> (\<exists>msg. createReturnRequest sampleEnv (sampleCreate\<lparr>req_userId := Some 6\<rparr>) (emptyWorld 0)
        = (SendError (Message msg), emptyWorld 0))
   \<and> (\<exists>msg. createReturnRequest sampleEnv (sampleCreate\<lparr>body_sku := Some ''Z''\<rparr>) (emptyWorld 0)
        = (SendError (Message msg), emptyWorld 0))
   \<and> (\<exists>msg. createReturnRequest sampleEnv (sampleCreate\<lparr>body_orderId := Some 2\<rparr>) (emptyWorld 0)
        = (SendError (Message msg), emptyWorld 0))"
proof -
  have a: "createReturnRequest sampleEnv sampleCreate (sampleWorld Completed)
     = (SendError (Message ''Return request already exists for this order and SKU''),
        sampleWorld Completed)"
    by (rule create_rejects_without_change [where req = sampleCreate
          and w = "sampleWorld Completed" and env = sampleEnv, THEN conjunct2, rule_format,
          of 1 "''A''" "''Damaged''" 5])
      (simp add: sampleCreate_def sampleWorld_def sampleReturn_def orElse_def)
  have b: "\<exists>msg. createReturnRequest sampleEnv (sampleCreate\<lparr>body_quantity := Some 3\<rparr>) (emptyWorld 0)
        = (SendError (Message msg), emptyWorld 0)"
    by (rule create_rejects_without_change [where w = "emptyWorld 0", THEN conjunct1,
          rule_format, of _ 1 "''A''"])
      (simp add: sampleCreate_def emptyWorld_def deliveredOrder_def findOrder_def orElse_def)
  have c: "\<exists>msg. createReturnRequest sampleEnv (sampleCreate\<lparr>req_userId := Some 6\<rparr>) (emptyWorld 0)
        = (SendError (Message msg), emptyWorld 0)"
    by (rule create_rejects_without_change [where w = "emptyWorld 0", THEN conjunct1,
          rule_format, of _ 1 "''A''"])
      (simp add: sampleCreate_def emptyWorld_def deliveredOrder_def findOrder_def orElse_def)
  have d: "\<exists>msg. createReturnRequest sampleEnv (sampleCreate\<lparr>body_sku := Some ''Z''\<rparr>) (emptyWorld 0)
        = (SendError (Message msg), emptyWorld 0)"
    by (rule create_rejects_without_change [where w = "emptyWorld 0", THEN conjunct1,
          rule_format, of _ 1 "''Z''"])
      (simp add: sampleCreate_def emptyWorld_def deliveredOrder_def findOrder_def orElse_def)
  have e: "\<exists>msg. createReturnRequest sampleEnv (sampleCreate\<lparr>body_orderId := Some 2\<rparr>) (emptyWorld 0)
        = (SendError (Message msg), emptyWorld 0)"
    by (rule create_rejects_without_change [where w = "emptyWorld 0", THEN conjunct1,
          rule_format, of _ 2 "''A''"])
      (simp add: sampleCreate_def emptyWorld_def deliveredOrder_def findOrder_def orElse_def)
  show ?thesis
    using a b c d e by blast
qed

lemma findReturn_id: "findReturn i docs = Some r \<Longrightarrow> rr_id r = i"
  unfolding findReturn_def by (induction docs) (auto split: if_splits)

lemma find_replaceFirst:
  "find P xs \<noteq> None \<Longrightarrow> P y \<Longrightarrow> find P (replaceFirst P y xs) = Some y"
  by (induction xs) auto

lemma findReturn_saveReturn:
  "findReturn (rr_id r) (returnDocs w) \<noteq> None \<Longrightarrow>
   findReturn (rr_id r) (returnDocs (saveReturn r w)) = Some r"
  by (simp add: findReturn_def saveReturn_def find_replaceFirst)

lemma recordRefund_facts:
  "recordRefund rec r w = (r1, w1) \<Longrightarrow>
   r1 = r\<lparr>refund := (refund r)\<lparr>refund_id := Some (refund_oid rec)\<rparr>\<rparr>
   \<and> w1 = saveReturn r1 (w\<lparr>refundDocs := refundDocs w @ [rec]\<rparr>)"
  by (auto simp add: recordRefund_def Let_def)

text \<open>The two outcomes of the source-refund part: an error that leaves everything as it
  was, or one ledger entry of the source-refund kind.\<close>

lemma sourceRefund_cases:
  assumes "fst (sourceRefund env r order payment w) = (res, r1, w1)"
  shows "(\<exists>f. res = RefundFailed f \<and> r1 = r \<and> w1 = w)
    \<or> (\<exists>tid rec. res = RefundSuccess tid (refund_oid rec) ''Source_Refund''
          \<and> refund_type rec = ''Refund-Online''
          \<and> amount rec = refundAmount (refund r)
          \<and> recordRefund rec r w = (r1, w1))"
  using assms
  by (auto simp add: sourceRefund_def Let_def split: option.splits if_splits prod.splits)

text \<open>The bank-payout block either falls through, having changed nothing, or writes one
  ledger entry of the payout kind.\<close>

lemma bankPayout_fails:
  "env_contact env = None \<or> env_fund env = None \<or> env_payout env = None \<Longrightarrow>
   fst (bankPayout env r order w) = None"
  by (auto simp add: bankPayout_def Let_def split: option.splits)

lemma bankPayout_succeeds:
  assumes "env_contact env = Some c" and "env_fund env = Some f" and "env_payout env = Some p"
  shows "\<exists>rec r1 w1.
     fst (bankPayout env r order w)
       = Some (RefundSuccess (payout_id p) (refund_oid rec) ''Bank_Payout'', r1, w1)
     \<and> refund_type rec = ''Refund-COD''
     \<and> amount rec = refundAmount (refund r)
     \<and> recordRefund rec r w = (r1, w1)"
proof -
  let ?rec = "\<lparr>refund_oid = env_newRefundId env, rf_order_id = order_oid order,
      rf_return_id = rr_id r, razorpay_payout_id = Some (payout_id p),
      razorpay_refund_id = None, amount = refundAmount (refund r),
      currency = currencyOr (payout_currency p), rf_status = payout_status p,
      refund_type = ''Refund-COD'', rf_reason = ''Return refund via bank payout''\<rparr>"
  obtain r1 w1 where rr: "recordRefund ?rec r w = (r1, w1)"
    by (cases "recordRefund ?rec r w") auto
  have "fst (bankPayout env r order w)
       = Some (RefundSuccess (payout_id p) (refund_oid ?rec) ''Bank_Payout'', r1, w1)"
    using assms rr by (simp add: bankPayout_def Let_def)
  moreover have "refund_type ?rec = ''Refund-COD''" "amount ?rec = refundAmount (refund r)"
    by simp_all
  ultimately show ?thesis
    using rr by blast
qed

lemma bankPayout_cases:
  "(fst (bankPayout env r order w) = None
      \<and> (env_contact env = None \<or> env_fund env = None \<or> env_payout env = None))
   \<or> (\<exists>tid rec r1 w1.
         fst (bankPayout env r order w)
           = Some (RefundSuccess tid (refund_oid rec) ''Bank_Payout'', r1, w1)
         \<and> refund_type rec = ''Refund-COD''
         \<and> amount rec = refundAmount (refund r)
         \<and> recordRefund rec r w = (r1, w1)
         \<and> env_contact env \<noteq> None \<and> env_fund env \<noteq> None \<and> env_payout env \<noteq> None)"
proof (cases "env_contact env = None \<or> env_fund env = None \<or> env_payout env = None")
  case True
  then show ?thesis using bankPayout_fails [of env r order w] by simp
next
  case False
  then obtain c f p where "env_contact env = Some c" "env_fund env = Some f"
    "env_payout env = Some p"
    by auto
  from bankPayout_succeeds [OF this, of r order w] False show ?thesis
    by blast
qed

lemma processRefundPayment_cases:
  assumes "fst (processRefundPayment env r meth w) = (res, r1, w1)"
  shows "(\<exists>f. res = RefundFailed f \<and> r1 = r \<and> w1 = w)
    \<or> (\<exists>tid rec ty. res = RefundSuccess tid (refund_oid rec) ty
          \<and> amount rec = refundAmount (refund r)
          \<and> recordRefund rec r w = (r1, w1))"
proof (cases "findOrder (rr_orderId r) (orderDocs w)")
  case None
  then show ?thesis using assms by (auto simp add: processRefundPayment_def)
next
  case (Some order)
  note ord = this
  show ?thesis
  proof (cases "findPayment env order")
    case None
    then show ?thesis using assms ord by (auto simp add: processRefundPayment_def)
  next
    case (Some payment)
    note pay = this
    show ?thesis
    proof (cases "useBankPayout env meth payment \<and> fst (bankPayout env r order w) \<noteq> None")
      case True
      then obtain tid rec r1' w1' where
        b: "fst (bankPayout env r order w)
           = Some (RefundSuccess tid (refund_oid rec) ''Bank_Payout'', r1', w1')"
        and a: "amount rec = refundAmount (refund r)"
        and rr: "recordRefund rec r w = (r1', w1')"
        using bankPayout_cases [of env r order w] by auto
      have "fst (processRefundPayment env r meth w)
          = (RefundSuccess tid (refund_oid rec) ''Bank_Payout'', r1', w1')"
        using True b ord pay
        by (cases "bankPayout env r order w") (simp add: processRefundPayment_def)
      then show ?thesis using assms a rr by auto
    next
      case False
      then have "fst (processRefundPayment env r meth w)
          = fst (sourceRefund env r order payment w)"
        using ord pay
        by (cases "bankPayout env r order w"; cases "sourceRefund env r order payment w")
          (auto simp add: processRefundPayment_def split: option.splits)
      then show ?thesis
        using assms sourceRefund_cases [of env r order payment w res r1 w1] by auto
    qed
  qed
qed

lemma processRefund_success_status:
  assumes "processRefund env returnId adminId methodArg notesArg w = (SendSuccess resp msg, w')"
  shows "\<exists>r. findReturn returnId (returnDocs w') = Some r \<and> returnStatus r = Refund_Processed"
proof -
  obtain r0 where f: "findReturn returnId (returnDocs w) = Some r0"
    using assms by (cases "findReturn returnId (returnDocs w)") (auto simp: processRefund_def)
  have st: "returnStatus r0 = Approved"
    using assms f by (auto simp: processRefund_def split: if_splits)
  define meth where "meth = (case methodArg of None \<Rightarrow> ''Original_Payment_Method'' | Some m \<Rightarrow> m)"
  obtain res r1 w1 where p: "fst (processRefundPayment env r0 meth w) = (res, r1, w1)"
    by (cases "fst (processRefundPayment env r0 meth w)") auto
  from assms f st p obtain tid rid ty where res: "res = RefundSuccess tid rid ty"
    by (cases res) (auto simp: processRefund_def meth_def Let_def)
  from processRefundPayment_cases [OF p] res obtain rec where
    rr: "recordRefund rec r0 w = (r1, w1)"
    by auto
  from recordRefund_facts [OF rr]
  have r1: "r1 = r0\<lparr>refund := (refund r0)\<lparr>refund_id := Some (refund_oid rec)\<rparr>\<rparr>"
    and w1: "w1 = saveReturn r1 (w\<lparr>refundDocs := refundDocs w @ [rec]\<rparr>)"
    by simp_all
  have id0: "rr_id r0 = returnId"
    using f by (rule findReturn_id)
  have id1: "rr_id r1 = returnId"
    using r1 id0 by simp
  have f1: "findReturn returnId (returnDocs w1) = Some r1"
    unfolding w1 using findReturn_saveReturn [of r1 "w\<lparr>refundDocs := refundDocs w @ [rec]\<rparr>"] f id1
    by simp
  define r2 where "r2 = r1\<lparr>returnStatus := Refund_Processed,
      refund := (refund r1)\<lparr>processedBy := adminId, processedAt := Some (env_now env),
        refundMethod := Some meth, refundStatus := Some ''Completed'',
        transactionId := Some tid, refundNotes := notesArg\<rparr>,
      timestamps := (timestamps r1)\<lparr>refundProcessedAt := Some (env_now env)\<rparr>\<rparr>"
  have w': "w' = notify [rr_customerId r2] ''Refund Processed'' (saveReturn r2 w1)"
    using assms f st p res
    by (auto simp add: processRefund_def meth_def Let_def r2_def)
  have id2: "rr_id r2 = returnId"
    using id1 by (simp add: r2_def)
  have "findReturn returnId (returnDocs (saveReturn r2 w1)) = Some r2"
    using findReturn_saveReturn [of r2 w1] f1 id2 by simp
  then have "findReturn returnId (returnDocs w') = Some r2"
    by (simp add: w' notify_def)
  moreover have "returnStatus r2 = Refund_Processed"
    by (simp add: r2_def)
  ultimately show ?thesis by blast
qed

text \<open>
  Claim C3. For a stored return request whose status is not the one an operation
  requires, each of the six guarded operations answers with the error message that names
  the required status and returns the state it was given, so the return request (and
  everything else) is unchanged. After a process-refund call that succeeded, any further
  process-refund call on the same request is refused in the same way.
\<close>

theorem precondition_guards:
  "(\<forall>r. findReturn returnId (returnDocs w) = Some r \<longrightarrow>
      (returnStatus r \<noteq> Validated \<longrightarrow>
         exports_schedulePickup env returnId sched w =
           (SendError (Message ''Return request must be validated before scheduling pickup''), w))
      \<and> (returnStatus r \<noteq> Pickup_Scheduled \<longrightarrow>
         completePickup env returnId tracking w =
           (SendError (Message ''Return request must be in Pickup_Scheduled status''), w))
      \<and> (returnStatus r \<noteq> Pickup_Completed \<longrightarrow>
         startInspection env returnId staffId w =
           (SendError (Message ''Return request must be in Pickup_Completed status''), w))
      \<and> (returnStatus r \<noteq> Under_Inspection \<longrightarrow>
         completeInspection env returnId body w =
           (SendError (Message ''Return request must be in Under_Inspection status''), w))
      \<and> (returnStatus r \<noteq> Approved \<longrightarrow>
         processRefund env returnId adminId methodArg notesArg w =
           (SendError (Message ''Return request must be approved before processing refund''), w))
      \<and> (returnStatus r \<noteq> Refund_Processed \<longrightarrow>
         completeReturn env returnId w =
           (SendError
              (Message ''Return request must have refund processed before completion''), w)))
   \<and> (\<forall>resp msg w' env2 adminId2 methodArg2 notesArg2.
        processRefund env returnId adminId methodArg notesArg w = (SendSuccess resp msg, w') \<longrightarrow>
        processRefund env2 returnId adminId2 methodArg2 notesArg2 w' =
          (SendError (Message ''Return request must be approved before processing refund''), w'))"
proof (intro conjI allI impI)
  fix r
  assume f: "findReturn returnId (returnDocs w) = Some r"
  show "exports_schedulePickup env returnId sched w =
      (SendError (Message ''Return request must be validated before scheduling pickup''), w)"
    if "returnStatus r \<noteq> Validated"
    using f that by (simp add: exports_schedulePickup_def)
  show "completePickup env returnId tracking w =
      (SendError (Message ''Return request must be in Pickup_Scheduled status''), w)"
    if "returnStatus r \<noteq> Pickup_Scheduled"
    using f that by (simp add: completePickup_def)
  show "startInspection env returnId staffId w =
      (SendError (Message ''Return request must be in Pickup_Completed status''), w)"
    if "returnStatus r \<noteq> Pickup_Completed"
    using f that by (simp add: startInspection_def)
  show "completeInspection env returnId body w =
      (SendError (Message ''Return request must be in Under_Inspection status''), w)"
    if "returnStatus r \<noteq> Under_Inspection"
    using f that by (simp add: completeInspection_def)
  show "processRefund env returnId adminId methodArg notesArg w =
      (SendError (Message ''Return request must be approved before processing refund''), w)"
    if "returnStatus r \<noteq> Approved"
    using f that by (simp add: processRefund_def)
  show "completeReturn env returnId w =
      (SendError (Message ''Return request must have refund processed before completion''), w)"
    if "returnStatus r \<noteq> Refund_Processed"
    using f that by (simp add: completeReturn_def)
next
  fix resp msg w' env2 adminId2 methodArg2 notesArg2
  assume "processRefund env returnId adminId methodArg notesArg w = (SendSuccess resp msg, w')"
  then obtain r where "findReturn returnId (returnDocs w') = Some r"
    and "returnStatus r = Refund_Processed"
    using processRefund_success_status by blast
  then show "processRefund env2 returnId adminId2 methodArg2 notesArg2 w' =
      (SendError (Message ''Return request must be approved before processing refund''), w')"
    by (simp add: processRefund_def)
qed

text \<open>The equations that evaluate the refund processor and the orchestrator on the
  sample data.\<close>

lemmas refund_eval =
  processRefund_def processRefundPayment_def sourceRefund_def bankPayout_def useBankPayout_def
  hasBankAccount_def truthy_def findPayment_def findOrder_def findReturn_def recordRefund_def
  saveReturn_def notify_def currencyOr_def Math_round_def sampleEnv_def sampleWorld_def
  sampleReturn_def deliveredOrder_def Let_def

theorem precondition_guards_witness:
  "completePickup sampleEnv 11 None (sampleWorld Requested) =
     (SendError (Message ''Return request must be in Pickup_Scheduled status''),
      sampleWorld Requested)
   \<and> exports_schedulePickup sampleEnv 11 None (sampleWorld Requested) =
     (SendError (Message ''Return request must be validated before scheduling pickup''),
      sampleWorld Requested)
   \<and> completeReturn sampleEnv 11 (sampleWorld Requested) =
     (SendError (Message ''Return request must have refund processed before completion''),
      sampleWorld Requested)
   \<and> fst (processRefund sampleEnv 11 (Some 9) None None (sampleWorld Approved)) \<noteq>
       SendError (Message ''Return request must be approved before processing refund'')
   \<and> processRefund sampleEnv 11 (Some 9) None None
       (snd (processRefund sampleEnv 11 (Some 9) None None (sampleWorld Approved))) =
     (SendError (Message ''Return request must be approved before processing refund''),
      snd (processRefund sampleEnv 11 (Some 9) None None (sampleWorld Approved)))"
proof -
  have f: "findReturn 11 (returnDocs (sampleWorld Requested)) = Some (sampleReturn Requested)"
    by (simp add: findReturn_def sampleWorld_def sampleReturn_def)
  have st: "returnStatus (sampleReturn Requested) = Requested"
    by (simp add: sampleReturn_def)
  note g = precondition_guards [where returnId = 11 and w = "sampleWorld Requested"
      and env = sampleEnv, THEN conjunct1, rule_format, OF f]
  have a: "completePickup sampleEnv 11 None (sampleWorld Requested) =
     (SendError (Message ''Return request must be in Pickup_Scheduled status''),
      sampleWorld Requested)"
    using g [THEN conjunct2, THEN conjunct1] st by simp
  have b: "exports_schedulePickup sampleEnv 11 None (sampleWorld Requested) =
     (SendError (Message ''Return request must be validated before scheduling pickup''),
      sampleWorld Requested)"
    using g [THEN conjunct1] st by simp
  have c: "completeReturn sampleEnv 11 (sampleWorld Requested) =
     (SendError (Message ''Return request must have refund processed before completion''),
      sampleWorld Requested)"
    using g [THEN conjunct2, THEN conjunct2, THEN conjunct2, THEN conjunct2, THEN conjunct2] st
    by simp
  have "\<exists>resp msg. fst (processRefund sampleEnv 11 (Some 9) None None (sampleWorld Approved))
      = SendSuccess resp msg"
    by (simp add: refund_eval)
  then obtain resp msg where
    s: "processRefund sampleEnv 11 (Some 9) None None (sampleWorld Approved)
      = (SendSuccess resp msg,
         snd (processRefund sampleEnv 11 (Some 9) None None (sampleWorld Approved)))"
    by (metis prod.collapse)
  have d: "processRefund sampleEnv 11 (Some 9) None None
       (snd (processRefund sampleEnv 11 (Some 9) None None (sampleWorld Approved))) =
     (SendError (Message ''Return request must be approved before processing refund''),
      snd (processRefund sampleEnv 11 (Some 9) None None (sampleWorld Approved)))"
    by (rule precondition_guards [where returnId = 11 and w = "sampleWorld Approved"
          and env = sampleEnv, THEN conjunct2, rule_format, OF s])
  have e: "fst (processRefund sampleEnv 11 (Some 9) None None (sampleWorld Approved)) \<noteq>
       SendError (Message ''Return request must be approved before processing refund'')"
    using s by (metis Response.distinct(1) fst_conv)
  show ?thesis
    using a b c d e by blast
qed

section \<open>Properties of the refund processor\<close>

lemma processRefundPayment_source:
  assumes "findOrder (rr_orderId r) (orderDocs w) = Some order"
    and "findPayment env order = Some payment"
    and "\<not> useBankPayout env meth payment"
  shows "processRefundPayment env r meth w = sourceRefund env r order payment w"
  using assms by (simp add: processRefundPayment_def)

lemma processRefundPayment_fallback:
  assumes "findOrder (rr_orderId r) (orderDocs w) = Some order"
    and "findPayment env order = Some payment"
    and "useBankPayout env meth payment"
    and "env_contact env = None \<or> env_fund env = None \<or> env_payout env = None"
  shows "processRefundPayment env r meth w =
     (fst (sourceRefund env r order payment w),
      snd (bankPayout env r order w) @ snd (sourceRefund env r order payment w))"
proof -
  have "fst (bankPayout env r order w) = None"
    using assms(4) by (rule bankPayout_fails)
  then show ?thesis
    using assms(1-3)
    by (cases "bankPayout env r order w"; cases "sourceRefund env r order payment w")
      (simp add: processRefundPayment_def)
qed

lemma processRefundPayment_reaches_source:
  assumes "findOrder (rr_orderId r) (orderDocs w) = Some order"
    and "findPayment env order = Some payment"
    and "\<not> useBankPayout env meth payment
      \<or> env_contact env = None \<or> env_fund env = None \<or> env_payout env = None"
  shows "fst (processRefundPayment env r meth w) = fst (sourceRefund env r order payment w)"
proof (cases "useBankPayout env meth payment")
  case True
  then show ?thesis
    using assms processRefundPayment_fallback [of r w order env payment meth] by auto
next
  case False
  then show ?thesis
    using assms processRefundPayment_source [of r w order env payment meth] by simp
qed

lemma sourceRefund_exceeds:
  assumes "payment_id payment = Some pid" and "pid \<noteq> []"
    and "env_paymentDetails env = Some pd"
    and "Math_round (refundAmount (refund r) * 100) >
       (case pd_amount pd of None \<Rightarrow> 0 | Some a \<Rightarrow> a)
       - (case pd_amount_refunded pd of None \<Rightarrow> 0 | Some a \<Rightarrow> a)"
  shows "sourceRefund env r order payment w =
     ((RefundFailed (ExceedsBalance (refundAmount (refund r))
          ((case pd_amount pd of None \<Rightarrow> 0 | Some a \<Rightarrow> a)
           - (case pd_amount_refunded pd of None \<Rightarrow> 0 | Some a \<Rightarrow> a))), r, w),
      [FetchPayment pid])"
  using assms by (simp add: sourceRefund_def Let_def)

lemma sourceRefund_status_failed:
  assumes "payment_id payment = Some pid" and "pid \<noteq> []"
    and "env_paymentDetails env = Some pd"
    and "\<not> Math_round (refundAmount (refund r) * 100) >
       (case pd_amount pd of None \<Rightarrow> 0 | Some a \<Rightarrow> a)
       - (case pd_amount_refunded pd of None \<Rightarrow> 0 | Some a \<Rightarrow> a)"
    and "env_refund env = Some rd" and "rd_status rd = Some ''failed''"
  shows "sourceRefund env r order payment w =
     ((RefundFailed (RefundStatusFailed (rd_error_description rd)), r, w),
      [FetchPayment pid, CreateRefund pid (Math_round (refundAmount (refund r) * 100))])"
  using assms by (simp add: sourceRefund_def Let_def)

lemma processRefundPayment_failed_unchanged:
  assumes "fst (processRefundPayment env r meth w) = (RefundFailed f, r1, w1)"
  shows "r1 = r \<and> w1 = w"
  using processRefundPayment_cases [OF assms] by auto

lemma processRefund_failed:
  assumes "findReturn returnId (returnDocs w) = Some r0" and "returnStatus r0 = Approved"
    and "fst (processRefundPayment env r0
           (case methodArg of None \<Rightarrow> ''Original_Payment_Method'' | Some m \<Rightarrow> m) w)
         = (RefundFailed f, r1, w1)"
  shows "processRefund env returnId adminId methodArg notesArg w =
     (SendError (RefundProcessingFailed f), w)"
proof -
  have "w1 = w"
    using processRefundPayment_failed_unchanged [OF assms(3)] by simp
  then show ?thesis
    using assms by (simp add: processRefund_def Let_def)
qed

text \<open>
  Claim C5. Whenever the source-refund part is reached (the bank payout is not chosen, or
  one of its calls failed) with a provider payment id and the payment details fetched:
  a requested amount in minor units above captured minus already refunded fails with
  the exceeds-balance error before any refund call, and a provider refund whose status
  is "failed" fails with the refund-failed error. Every failed run of the processor
  returns the return request and the state as they were, so no ledger entry is written;
  the orchestrator then answers with the failure and leaves the state, and with it the
  status Approved, unchanged.
\<close>

theorem refund_failures_change_nothing:
  "(\<forall>order payment pid pd.
      findOrder (rr_orderId r) (orderDocs w) = Some order
      \<and> findPayment env order = Some payment
      \<and> (\<not> useBankPayout env meth payment
         \<or> env_contact env = None \<or> env_fund env = None \<or> env_payout env = None)
      \<and> payment_id payment = Some pid \<and> pid \<noteq> [] \<and> env_paymentDetails env = Some pd
      \<longrightarrow>
      (Math_round (refundAmount (refund r) * 100) >
          (case pd_amount pd of None \<Rightarrow> 0 | Some a \<Rightarrow> a)
          - (case pd_amount_refunded pd of None \<Rightarrow> 0 | Some a \<Rightarrow> a)
        \<longrightarrow> fst (processRefundPayment env r meth w) =
              (RefundFailed (ExceedsBalance (refundAmount (refund r))
                 ((case pd_amount pd of None \<Rightarrow> 0 | Some a \<Rightarrow> a)
                  - (case pd_amount_refunded pd of None \<Rightarrow> 0 | Some a \<Rightarrow> a))), r, w))
      \<and> (\<forall>rd. \<not> Math_round (refundAmount (refund r) * 100) >
                 (case pd_amount pd of None \<Rightarrow> 0 | Some a \<Rightarrow> a)
                 - (case pd_amount_refunded pd of None \<Rightarrow> 0 | Some a \<Rightarrow> a)
               \<and> env_refund env = Some rd \<and> rd_status rd = Some ''failed''
        \<longrightarrow> fst (processRefundPayment env r meth w) =
              (RefundFailed (RefundStatusFailed (rd_error_description rd)), r, w)))
   \<and> (\<forall>f r1 w1. fst (processRefundPayment env r meth w) = (RefundFailed f, r1, w1)
        \<longrightarrow> r1 = r \<and> w1 = w \<and> refundDocs w1 = refundDocs w)
   \<and> (\<forall>r0 f r1 w1.
        findReturn returnId (returnDocs w) = Some r0 \<and> returnStatus r0 = Approved
        \<and> fst (processRefundPayment env r0
              (case methodArg of None \<Rightarrow> ''Original_Payment_Method'' | Some m \<Rightarrow> m) w)
            = (RefundFailed f, r1, w1)
        \<longrightarrow> processRefund env returnId adminId methodArg notesArg w =
              (SendError (RefundProcessingFailed f), w))"
proof (intro conjI allI impI)
  fix order payment pid pd
  assume h: "findOrder (rr_orderId r) (orderDocs w) = Some order
      \<and> findPayment env order = Some payment
      \<and> (\<not> useBankPayout env meth payment
         \<or> env_contact env = None \<or> env_fund env = None \<or> env_payout env = None)
      \<and> payment_id payment = Some pid \<and> pid \<noteq> [] \<and> env_paymentDetails env = Some pd"
  then have src: "fst (processRefundPayment env r meth w)
      = fst (sourceRefund env r order payment w)"
    by (intro processRefundPayment_reaches_source) auto
  show "fst (processRefundPayment env r meth w) =
              (RefundFailed (ExceedsBalance (refundAmount (refund r))
                 ((case pd_amount pd of None \<Rightarrow> 0 | Some a \<Rightarrow> a)
                  - (case pd_amount_refunded pd of None \<Rightarrow> 0 | Some a \<Rightarrow> a))), r, w)"
    if "Math_round (refundAmount (refund r) * 100) >
          (case pd_amount pd of None \<Rightarrow> 0 | Some a \<Rightarrow> a)
          - (case pd_amount_refunded pd of None \<Rightarrow> 0 | Some a \<Rightarrow> a)"
    using h that by (simp add: src sourceRefund_exceeds)
  show "fst (processRefundPayment env r meth w) =
              (RefundFailed (RefundStatusFailed (rd_error_description rd)), r, w)"
    if "\<not> Math_round (refundAmount (refund r) * 100) >
                 (case pd_amount pd of None \<Rightarrow> 0 | Some a \<Rightarrow> a)
                 - (case pd_amount_refunded pd of None \<Rightarrow> 0 | Some a \<Rightarrow> a)
               \<and> env_refund env = Some rd \<and> rd_status rd = Some ''failed''"
    for rd
    using h that by (simp add: src sourceRefund_status_failed)
next
  fix f r1 w1
  assume a: "fst (processRefundPayment env r meth w) = (RefundFailed f, r1, w1)"
  from processRefundPayment_failed_unchanged [OF a]
  show "r1 = r" "w1 = w" "refundDocs w1 = refundDocs w"
    by simp_all
next
  fix r0 f r1 w1
  assume "findReturn returnId (returnDocs w) = Some r0 \<and> returnStatus r0 = Approved
        \<and> fst (processRefundPayment env r0
              (case methodArg of None \<Rightarrow> ''Original_Payment_Method'' | Some m \<Rightarrow> m) w)
            = (RefundFailed f, r1, w1)"
  then show "processRefund env returnId adminId methodArg notesArg w =
              (SendError (RefundProcessingFailed f), w)"
    by (intro processRefund_failed) auto
qed

theorem refund_failures_change_nothing_witness:
  "fst (processRefundPayment
          (sampleEnv\<lparr>env_paymentDetails :=
             Some \<lparr>pd_amount = Some 50000, pd_amount_refunded = Some 40000\<rparr>\<rparr>)
          (sampleReturn Approved) ''Original_Payment_Method'' (sampleWorld Approved))
     = (RefundFailed (ExceedsBalance 300 10000), sampleReturn Approved, sampleWorld Approved)
   \<and> processRefund
        (sampleEnv\<lparr>env_paymentDetails :=
           Some \<lparr>pd_amount = Some 50000, pd_amount_refunded = Some 40000\<rparr>\<rparr>)
        11 (Some 9) None None (sampleWorld Approved)
     = (SendError (RefundProcessingFailed (ExceedsBalance 300 10000)), sampleWorld Approved)
   \<and> returnStatus (sampleReturn Approved) = Approved
   \<and> refundDocs (sampleWorld Approved) = []"
proof -
  let ?env = "sampleEnv\<lparr>env_paymentDetails :=
             Some \<lparr>pd_amount = Some 50000, pd_amount_refunded = Some 40000\<rparr>\<rparr>"
  note t = refund_failures_change_nothing [where env = ?env and r = "sampleReturn Approved"
      and w = "sampleWorld Approved" and meth = "''Original_Payment_Method''"
      and returnId = 11 and adminId = "Some 9" and methodArg = None and notesArg = None]
  have g: "findOrder (rr_orderId (sampleReturn Approved)) (orderDocs (sampleWorld Approved))
        = Some (deliveredOrder 0)
      \<and> findPayment ?env (deliveredOrder 0) = Some \<lparr>payment_oid = 3, payment_id = Some ''pay_1''\<rparr>
      \<and> (\<not> useBankPayout ?env ''Original_Payment_Method''
              \<lparr>payment_oid = 3, payment_id = Some ''pay_1''\<rparr>
         \<or> env_contact ?env = None \<or> env_fund ?env = None \<or> env_payout ?env = None)
      \<and> payment_id \<lparr>payment_oid = 3, payment_id = Some ''pay_1''\<rparr> = Some ''pay_1''
      \<and> ''pay_1'' \<noteq> []
      \<and> env_paymentDetails ?env = Some \<lparr>pd_amount = Some 50000, pd_amount_refunded = Some 40000\<rparr>"
    by (simp add: refund_eval)
  have ex: "Math_round (refundAmount (refund (sampleReturn Approved)) * 100) >
      (case pd_amount \<lparr>pd_amount = Some 50000, pd_amount_refunded = Some 40000\<rparr> of
         None \<Rightarrow> 0 | Some a \<Rightarrow> a)
      - (case pd_amount_refunded \<lparr>pd_amount = Some 50000, pd_amount_refunded = Some 40000\<rparr> of
         None \<Rightarrow> 0 | Some a \<Rightarrow> a)"
    by (simp add: sampleReturn_def Math_round_def)
  have a: "fst (processRefundPayment ?env (sampleReturn Approved) ''Original_Payment_Method''
        (sampleWorld Approved))
     = (RefundFailed (ExceedsBalance 300 10000), sampleReturn Approved, sampleWorld Approved)"
    using t [THEN conjunct1, rule_format, OF g, THEN conjunct1, rule_format, OF ex]
    by (simp add: sampleReturn_def)
  have f: "findReturn 11 (returnDocs (sampleWorld Approved)) = Some (sampleReturn Approved)
      \<and> returnStatus (sampleReturn Approved) = Approved
      \<and> fst (processRefundPayment ?env (sampleReturn Approved)
            (case None of None \<Rightarrow> ''Original_Payment_Method'' | Some m \<Rightarrow> m)
            (sampleWorld Approved))
        = (RefundFailed (ExceedsBalance 300 10000), sampleReturn Approved, sampleWorld Approved)"
    using a by (simp add: findReturn_def sampleWorld_def sampleReturn_def)
  have b: "processRefund ?env 11 (Some 9) None None (sampleWorld Approved)
     = (SendError (RefundProcessingFailed (ExceedsBalance 300 10000)), sampleWorld Approved)"
    by (rule t [THEN conjunct2, THEN conjunct2, rule_format, OF f])
  show ?thesis
    using a b by (simp add: sampleReturn_def sampleWorld_def)
qed

lemma contact_in_bankPayout: "CreateContact \<in> set (snd (bankPayout env r order w))"
  by (simp add: bankPayout_def Let_def split: option.splits prod.splits)

lemma contact_not_in_sourceRefund:
  "CreateContact \<notin> set (snd (sourceRefund env r order payment w))"
  by (simp add: sourceRefund_def Let_def split: option.splits prod.splits)

lemma recordRefund_docs:
  "recordRefund rec r w = (r1, w1) \<Longrightarrow> refundDocs w1 = refundDocs w @ [rec]"
  by (auto simp add: recordRefund_def saveReturn_def Let_def)

lemma processRefundPayment_bank:
  assumes "findOrder (rr_orderId r) (orderDocs w) = Some order"
    and "findPayment env order = Some payment"
    and "useBankPayout env meth payment"
    and "fst (bankPayout env r order w) = Some res"
  shows "processRefundPayment env r meth w = (res, snd (bankPayout env r order w))"
  using assms by (cases "bankPayout env r order w") (simp add: processRefundPayment_def)

lemma contact_iff_bank:
  assumes "findOrder (rr_orderId r) (orderDocs w) = Some order"
    and "findPayment env order = Some payment"
  shows "(CreateContact \<in> set (snd (processRefundPayment env r meth w)))
     = useBankPayout env meth payment"
proof (cases "useBankPayout env meth payment")
  case False
  then show ?thesis
    using assms by (simp add: processRefundPayment_source contact_not_in_sourceRefund)
next
  case True
  note ub = this
  show ?thesis
  proof (cases "fst (bankPayout env r order w)")
    case None
    then have "env_contact env = None \<or> env_fund env = None \<or> env_payout env = None"
      using bankPayout_cases [of env r order w] by auto
    then show ?thesis
      using assms ub by (simp add: processRefundPayment_fallback contact_in_bankPayout)
  next
    case (Some res)
    then show ?thesis
      using assms ub by (simp add: processRefundPayment_bank contact_in_bankPayout)
  qed
qed

lemma source_ledger:
  assumes "fst (sourceRefund env r order payment w) = (res, r1, w1)"
  shows "(\<forall>f. res = RefundFailed f \<longrightarrow> refundDocs w1 = refundDocs w)
     \<and> (\<forall>tid rid ty. res = RefundSuccess tid rid ty \<longrightarrow>
           ty = ''Source_Refund''
           \<and> (\<exists>e. refundDocs w1 = refundDocs w @ [e] \<and> refund_type e = ''Refund-Online''))"
  using sourceRefund_cases [OF assms] by (auto dest: recordRefund_docs)

text \<open>
  Claim C4, as the code has it. With the order and its payment found, the processor
  starts the bank payout (its first call creates the contact) exactly when the customer
  has an account number, an IFSC code and a holder name and the method is Bank_Account or
  Wallet or the payment has no provider payment id; otherwise it runs the source refund
  alone. When the payout is chosen and the contact, the fund account or the payout call
  fails, the run continues with the source refund and its outcome is the outcome of the
  source refund: a success of type Source_Refund with exactly one new ledger entry (kind
  Refund-Online), or a failure with no new ledger entry; never two entries. When all
  three calls succeed the result is of type Bank_Payout with one new ledger entry.
\<close>

theorem refund_strategy_and_fallback:
  "(env_user env = None \<longrightarrow> \<not> hasBankAccount env)
   \<and> (\<forall>u. env_user env = Some u \<and> bank_details u = None \<longrightarrow> \<not> hasBankAccount env)
   \<and> (\<forall>u b. env_user env = Some u \<and> bank_details u = Some b \<longrightarrow>
         hasBankAccount env
           = (truthy (account_number b) \<and> truthy (ifsc_code b)
              \<and> truthy (bank_account_holder_name b)))
   \<and> (\<forall>order payment.
        findOrder (rr_orderId r) (orderDocs w) = Some order
        \<and> findPayment env order = Some payment \<longrightarrow>
        (CreateContact \<in> set (snd (processRefundPayment env r meth w)))
          = (hasBankAccount env
             \<and> (meth = ''Bank_Account'' \<or> meth = ''Wallet''
                \<or> \<not> truthy (payment_id payment)))
        \<and> (\<not> useBankPayout env meth payment \<longrightarrow>
             processRefundPayment env r meth w = sourceRefund env r order payment w)
        \<and> (useBankPayout env meth payment
             \<and> (env_contact env = None \<or> env_fund env = None \<or> env_payout env = None) \<longrightarrow>
             processRefundPayment env r meth w =
               (fst (sourceRefund env r order payment w),
                snd (bankPayout env r order w) @ snd (sourceRefund env r order payment w))
             \<and> (\<forall>res r1 w1.
                   fst (processRefundPayment env r meth w) = (res, r1, w1) \<longrightarrow>
                   (\<forall>f. res = RefundFailed f \<longrightarrow> refundDocs w1 = refundDocs w)
                   \<and> (\<forall>tid rid ty. res = RefundSuccess tid rid ty \<longrightarrow>
                         ty = ''Source_Refund''
                         \<and> (\<exists>e. refundDocs w1 = refundDocs w @ [e]
                                \<and> refund_type e = ''Refund-Online''))))
        \<and> (useBankPayout env meth payment
             \<and> env_contact env \<noteq> None \<and> env_fund env \<noteq> None \<and> env_payout env \<noteq> None \<longrightarrow>
             (\<exists>tid rid r1 w1 e.
                 processRefundPayment env r meth w =
                   ((RefundSuccess tid rid ''Bank_Payout'', r1, w1),
                    snd (bankPayout env r order w))
                 \<and> refundDocs w1 = refundDocs w @ [e] \<and> refund_type e = ''Refund-COD'')))"
proof (intro conjI allI impI)
  show "\<not> hasBankAccount env" if "env_user env = None"
    using that by (simp add: hasBankAccount_def)
  show "\<not> hasBankAccount env" if "env_user env = Some u \<and> bank_details u = None" for u
    using that by (simp add: hasBankAccount_def)
  show "hasBankAccount env
      = (truthy (account_number b) \<and> truthy (ifsc_code b) \<and> truthy (bank_account_holder_name b))"
    if "env_user env = Some u \<and> bank_details u = Some b" for u b
    using that by (simp add: hasBankAccount_def)
next
  fix order payment
  assume h: "findOrder (rr_orderId r) (orderDocs w) = Some order
        \<and> findPayment env order = Some payment"
  show "(CreateContact \<in> set (snd (processRefundPayment env r meth w)))
          = (hasBankAccount env
             \<and> (meth = ''Bank_Account'' \<or> meth = ''Wallet''
                \<or> \<not> truthy (payment_id payment)))"
    using h contact_iff_bank [of r w order env payment meth]
    by (simp add: useBankPayout_def)
  show "processRefundPayment env r meth w = sourceRefund env r order payment w"
    if "\<not> useBankPayout env meth payment"
    using h that by (simp add: processRefundPayment_source)
  show "\<exists>tid rid r1 w1 e.
          processRefundPayment env r meth w =
            ((RefundSuccess tid rid ''Bank_Payout'', r1, w1), snd (bankPayout env r order w))
          \<and> refundDocs w1 = refundDocs w @ [e] \<and> refund_type e = ''Refund-COD''"
    if a: "useBankPayout env meth payment
       \<and> env_contact env \<noteq> None \<and> env_fund env \<noteq> None \<and> env_payout env \<noteq> None"
  proof -
    from a bankPayout_cases [of env r order w] obtain tid rec r1 w1 where
      b: "fst (bankPayout env r order w)
           = Some (RefundSuccess tid (refund_oid rec) ''Bank_Payout'', r1, w1)"
      and ty: "refund_type rec = ''Refund-COD''"
      and rr: "recordRefund rec r w = (r1, w1)"
      by (auto simp: bankPayout_fails)
    have "processRefundPayment env r meth w =
        ((RefundSuccess tid (refund_oid rec) ''Bank_Payout'', r1, w1),
         snd (bankPayout env r order w))"
      using h a b by (simp add: processRefundPayment_bank)
    moreover have "refundDocs w1 = refundDocs w @ [rec]"
      using rr by (rule recordRefund_docs)
    ultimately show ?thesis
      using ty by blast
  qed
next
  fix order payment
  assume h: "findOrder (rr_orderId r) (orderDocs w) = Some order
        \<and> findPayment env order = Some payment"
  assume a: "useBankPayout env meth payment
       \<and> (env_contact env = None \<or> env_fund env = None \<or> env_payout env = None)"
  show fb: "processRefundPayment env r meth w =
       (fst (sourceRefund env r order payment w),
        snd (bankPayout env r order w) @ snd (sourceRefund env r order payment w))"
    using h a by (intro processRefundPayment_fallback) auto
  fix res r1 w1
  assume "fst (processRefundPayment env r meth w) = (res, r1, w1)"
  then have s: "fst (sourceRefund env r order payment w) = (res, r1, w1)"
    by (simp add: fb)
  show "refundDocs w1 = refundDocs w" if "res = RefundFailed f" for f
    using source_ledger [OF s] that by blast
  show "ty = ''Source_Refund''" if "res = RefundSuccess tid rid ty" for tid rid ty
    using source_ledger [OF s] that by blast
  show "\<exists>e. refundDocs w1 = refundDocs w @ [e] \<and> refund_type e = ''Refund-Online''"
    if "res = RefundSuccess tid rid ty" for tid rid ty
    using source_ledger [OF s] that by blast
qed

theorem refund_strategy_and_fallback_witness:
  "hasBankAccount sampleEnv
   \<and> env_payout sampleEnv = None
   \<and> fst (fst (processRefundPayment sampleEnv (sampleReturn Approved) ''Bank_Account''
        (sampleWorld Approved))) = RefundSuccess ''rfnd_1'' 21 ''Source_Refund''
   \<and> map refund_type (refundDocs (snd (snd (fst (processRefundPayment sampleEnv
        (sampleReturn Approved) ''Bank_Account'' (sampleWorld Approved))))))
       = [''Refund-Online'']
   \<and> snd (processRefundPayment sampleEnv (sampleReturn Approved) ''Bank_Account''
        (sampleWorld Approved))
       = [CreateContact, CreateFundAccount ''cont_1'', CreatePayout ''fa_1'' 30000,
          FetchPayment ''pay_1'', CreateRefund ''pay_1'' 30000]
   \<and> CreateContact \<notin> set (snd (processRefundPayment sampleEnv (sampleReturn Approved)
        ''Original_Payment_Method'' (sampleWorld Approved)))"
proof -
  have g: "findOrder (rr_orderId (sampleReturn Approved)) (orderDocs (sampleWorld Approved))
        = Some (deliveredOrder 0)
      \<and> findPayment sampleEnv (deliveredOrder 0)
        = Some \<lparr>payment_oid = 3, payment_id = Some ''pay_1''\<rparr>"
    by (simp add: refund_eval)
  note t = refund_strategy_and_fallback [where env = sampleEnv and r = "sampleReturn Approved"
      and w = "sampleWorld Approved", THEN conjunct2, THEN conjunct2, THEN conjunct2,
      rule_format, OF g]
  have hb: "hasBankAccount sampleEnv" and po: "env_payout sampleEnv = None"
    by (simp_all add: refund_eval)
  have ub: "useBankPayout sampleEnv ''Bank_Account'' \<lparr>payment_oid = 3, payment_id = Some ''pay_1''\<rparr>
      \<and> (env_contact sampleEnv = None \<or> env_fund sampleEnv = None \<or> env_payout sampleEnv = None)"
    using hb po by (simp add: useBankPayout_def)
  have fb: "processRefundPayment sampleEnv (sampleReturn Approved) ''Bank_Account''
        (sampleWorld Approved) =
       (fst (sourceRefund sampleEnv (sampleReturn Approved) (deliveredOrder 0)
               \<lparr>payment_oid = 3, payment_id = Some ''pay_1''\<rparr> (sampleWorld Approved)),
        snd (bankPayout sampleEnv (sampleReturn Approved) (deliveredOrder 0)
               (sampleWorld Approved))
        @ snd (sourceRefund sampleEnv (sampleReturn Approved) (deliveredOrder 0)
               \<lparr>payment_oid = 3, payment_id = Some ''pay_1''\<rparr> (sampleWorld Approved)))"
    using t [where meth = "''Bank_Account''", THEN conjunct2, THEN conjunct2, THEN conjunct1,
        rule_format, OF ub, THEN conjunct1] .
  have no: "CreateContact \<notin> set (snd (processRefundPayment sampleEnv (sampleReturn Approved)
        ''Original_Payment_Method'' (sampleWorld Approved)))"
    using t [where meth = "''Original_Payment_Method''", THEN conjunct1]
    by (simp add: truthy_def)
  have src: "sourceRefund sampleEnv (sampleReturn Approved) (deliveredOrder 0)
        \<lparr>payment_oid = 3, payment_id = Some ''pay_1''\<rparr> (sampleWorld Approved)
      = ((RefundSuccess ''rfnd_1'' 21 ''Source_Refund'',
          (sampleReturn Approved)\<lparr>refund :=
             (refund (sampleReturn Approved))\<lparr>refund_id := Some 21\<rparr>\<rparr>,
          \<lparr>returnDocs = [(sampleReturn Approved)\<lparr>refund :=
               (refund (sampleReturn Approved))\<lparr>refund_id := Some 21\<rparr>\<rparr>],
           orderDocs = [deliveredOrder 0],
           refundDocs = [\<lparr>refund_oid = 21, rf_order_id = 1, rf_return_id = 11,
              razorpay_payout_id = None, razorpay_refund_id = Some ''rfnd_1'', amount = 300,
              currency = ''INR'', rf_status = Some ''processed'',
              refund_type = ''Refund-Online'',
              rf_reason = ''Return refund to source account''\<rparr>],
           sent = []\<rparr>),
         [FetchPayment ''pay_1'', CreateRefund ''pay_1'' 30000])"
    by (simp add: refund_eval)
  have bank: "snd (bankPayout sampleEnv (sampleReturn Approved) (deliveredOrder 0)
        (sampleWorld Approved))
      = [CreateContact, CreateFundAccount ''cont_1'', CreatePayout ''fa_1'' 30000]"
    by (simp add: refund_eval)
  show ?thesis
    using hb po no by (simp add: fb src bank)
qed

text \<open>
  A fallback run that writes no ledger entry: the customer has bank details and asks for
  Bank_Account, the payout call fails, and the source refund then fails because only
  100.00 of the captured amount is left to refund against a request of 300.00.
\<close>

theorem fallback_run_without_ledger_entry:
  "useBankPayout
     (sampleEnv\<lparr>env_paymentDetails :=
        Some \<lparr>pd_amount = Some 50000, pd_amount_refunded = Some 40000\<rparr>\<rparr>)
     ''Bank_Account'' \<lparr>payment_oid = 3, payment_id = Some ''pay_1''\<rparr>
   \<and> env_payout
       (sampleEnv\<lparr>env_paymentDetails :=
          Some \<lparr>pd_amount = Some 50000, pd_amount_refunded = Some 40000\<rparr>\<rparr>) = None
   \<and> processRefundPayment
       (sampleEnv\<lparr>env_paymentDetails :=
          Some \<lparr>pd_amount = Some 50000, pd_amount_refunded = Some 40000\<rparr>\<rparr>)
       (sampleReturn Approved) ''Bank_Account'' (sampleWorld Approved)
     = ((RefundFailed (ExceedsBalance 300 10000), sampleReturn Approved, sampleWorld Approved),
        [CreateContact, CreateFundAccount ''cont_1'', CreatePayout ''fa_1'' 30000,
         FetchPayment ''pay_1''])
   \<and> refundDocs (sampleWorld Approved) = []"
  by (simp add: refund_eval)

section \<open>The refund amount\<close>

lemma map_replaceFirst:
  "find P xs = Some x \<Longrightarrow> f y = f x \<Longrightarrow> map f (replaceFirst P y xs) = map f xs"
  by (induction xs) (auto split: if_splits)

lemma save_found_amounts:
  assumes "findReturn returnId (returnDocs w) = Some r"
    and "rr_id r' = rr_id r"
    and "refundAmount (refund r') = refundAmount (refund r)"
  shows "refundAmounts (saveReturn r' w) = refundAmounts w"
proof -
  have "rr_id r = returnId"
    using assms(1) by (rule findReturn_id)
  then have "find (\<lambda>x. rr_id x = rr_id r') (returnDocs w) = Some r"
    using assms(1,2) by (simp add: findReturn_def)
  then show ?thesis
    using assms(2,3) by (simp add: refundAmounts_def saveReturn_def map_replaceFirst)
qed

lemma refundAmounts_notify: "refundAmounts (notify rs t w) = refundAmounts w"
  by (simp add: refundAmounts_def notify_def)

lemma refundAmounts_saveOrder: "refundAmounts (saveOrder ord w) = refundAmounts w"
  by (simp add: refundAmounts_def saveOrder_def)

lemma schedulePickup_amounts:
  assumes "schedulePickup env i w = Some w'"
  shows "refundAmounts w' = refundAmounts w"
proof -
  obtain r where f: "findReturn i (returnDocs w) = Some r"
    using assms by (cases "findReturn i (returnDocs w)") (auto simp: schedulePickup_def)
  obtain p where w': "w' = saveReturn (markPickupScheduled env p r) w"
    using assms f
    by (cases "createLogisticsPickupRequest env r (Some (addDays (env_now env) 1)) w")
      (auto simp: schedulePickup_def)
  show ?thesis
    unfolding w' using f by (rule save_found_amounts) (simp_all add: markPickupScheduled_def)
qed

lemma validateReturnRequest_amounts:
  "refundAmounts (snd (validateReturnRequest env returnId w)) = refundAmounts w"
proof (cases "findReturn returnId (returnDocs w)")
  case None
  then show ?thesis by (simp add: validateReturnRequest_def)
next
  case (Some r)
  note f = this
  show ?thesis
  proof (cases "findOrder (rr_orderId r) (orderDocs w)")
    case None
    then show ?thesis using f by (simp add: validateReturnRequest_def)
  next
    case (Some order)
    define el where "el = validateReturnEligibility env order (rr_sku r)"
    define r' where "r' = r\<lparr>isEligible := el_isEligible el, eligibilityReason := el_reason el,
        isWithinReturnWindow := el_isWithinReturnWindow el,
        isProductReturnable := el_isProductReturnable el,
        returnStatus := (if el_isEligible el then Validated else Requested),
        timestamps := (timestamps r)\<lparr>validatedAt := Some (env_now env)\<rparr>\<rparr>"
    define w1 where "w1 = notify [rr_customerId r'] ''Return Request Validated'' (saveReturn r' w)"
    have a1: "refundAmounts w1 = refundAmounts w"
      unfolding w1_def refundAmounts_notify
      using f by (rule save_found_amounts) (simp_all add: r'_def)
    have "snd (validateReturnRequest env returnId w) =
        (if el_isEligible el
         then (case schedulePickup env (rr_id r') w1 of None \<Rightarrow> w1 | Some w2 \<Rightarrow> w2)
         else w1)"
      using f Some
      by (simp add: validateReturnRequest_def Let_def el_def r'_def w1_def split: option.split)
    then show ?thesis
      using a1 by (auto split: option.split dest: schedulePickup_amounts)
  qed
qed

lemma exports_schedulePickup_amounts:
  "refundAmounts (snd (exports_schedulePickup env returnId sched w)) = refundAmounts w"
proof (cases "findReturn returnId (returnDocs w)")
  case None
  then show ?thesis by (simp add: exports_schedulePickup_def)
next
  case (Some r)
  then show ?thesis
    by (cases "createLogisticsPickupRequest env r sched w")
      (simp_all add: exports_schedulePickup_def Let_def refundAmounts_notify
        save_found_amounts markPickupScheduled_def)
qed

lemma completePickup_amounts:
  "refundAmounts (snd (completePickup env returnId tracking w)) = refundAmounts w"
proof (cases "findReturn returnId (returnDocs w)")
  case None
  then show ?thesis by (simp add: completePickup_def)
next
  case (Some r)
  then show ?thesis
    by (simp add: completePickup_def Let_def refundAmounts_notify save_found_amounts
        split: option.split)
qed

lemma startInspection_amounts:
  "refundAmounts (snd (startInspection env returnId staffId w)) = refundAmounts w"
proof (cases "findReturn returnId (returnDocs w)")
  case None
  then show ?thesis by (simp add: startInspection_def)
next
  case (Some r)
  then show ?thesis
    by (simp add: startInspection_def Let_def save_found_amounts)
qed

lemma completeInspection_amounts:
  "refundAmounts (snd (completeInspection env returnId body w)) = refundAmounts w"
proof (cases "findReturn returnId (returnDocs w)")
  case None
  then show ?thesis by (simp add: completeInspection_def)
next
  case (Some r)
  then show ?thesis
    by (simp add: completeInspection_def Let_def refundAmounts_notify save_found_amounts
        findFulfillmentAdmins_def)
qed

lemma completeReturn_amounts:
  "refundAmounts (snd (completeReturn env returnId w)) = refundAmounts w"
proof (cases "findReturn returnId (returnDocs w)")
  case None
  then show ?thesis by (simp add: completeReturn_def)
next
  case (Some r)
  then show ?thesis
    by (simp add: completeReturn_def Let_def refundAmounts_notify save_found_amounts)
qed

lemma addNote_amounts:
  "refundAmounts (snd (addNote returnId noteText addedBy w)) = refundAmounts w"
proof (cases "findReturn returnId (returnDocs w)")
  case None
  then show ?thesis by (simp add: addNote_def)
next
  case (Some r)
  then show ?thesis
    by (simp add: addNote_def Let_def save_found_amounts)
qed

lemma processRefundPayment_amounts:
  assumes f: "findReturn returnId (returnDocs w) = Some r"
    and p: "fst (processRefundPayment env r meth w) = (res, r1, w1)"
  shows "refundAmounts w1 = refundAmounts w
    \<and> refundAmount (refund r1) = refundAmount (refund r)
    \<and> rr_id r1 = rr_id r
    \<and> findReturn returnId (returnDocs w1) = Some r1"
proof -
  from processRefundPayment_cases [OF p]
  show ?thesis
  proof
    assume "\<exists>f. res = RefundFailed f \<and> r1 = r \<and> w1 = w"
    then show ?thesis using f by auto
  next
    assume "\<exists>tid rec ty. res = RefundSuccess tid (refund_oid rec) ty
          \<and> amount rec = refundAmount (refund r) \<and> recordRefund rec r w = (r1, w1)"
    then obtain rec where rr: "recordRefund rec r w = (r1, w1)"
      by auto
    from recordRefund_facts [OF rr]
    have r1: "r1 = r\<lparr>refund := (refund r)\<lparr>refund_id := Some (refund_oid rec)\<rparr>\<rparr>"
      and w1: "w1 = saveReturn r1 (w\<lparr>refundDocs := refundDocs w @ [rec]\<rparr>)"
      by simp_all
    have id: "rr_id r = returnId"
      using f by (rule findReturn_id)
    have f': "findReturn returnId (returnDocs (w\<lparr>refundDocs := refundDocs w @ [rec]\<rparr>)) = Some r"
      using f by simp
    have a: "refundAmounts w1 = refundAmounts (w\<lparr>refundDocs := refundDocs w @ [rec]\<rparr>)"
      unfolding w1 using f' by (rule save_found_amounts) (simp_all add: r1)
    have b: "findReturn returnId (returnDocs w1) = Some r1"
      unfolding w1
      using findReturn_saveReturn [of r1 "w\<lparr>refundDocs := refundDocs w @ [rec]\<rparr>"] f id
      by (simp add: r1)
    show ?thesis
      using a b by (simp add: r1 refundAmounts_def)
  qed
qed

lemma processRefund_amounts:
  "refundAmounts (snd (processRefund env returnId adminId methodArg notesArg w)) = refundAmounts w"
proof (cases "findReturn returnId (returnDocs w)")
  case None
  then show ?thesis by (simp add: processRefund_def)
next
  case (Some r)
  note f = this
  show ?thesis
  proof (cases "returnStatus r = Approved")
    case False
    then show ?thesis using f by (simp add: processRefund_def)
  next
    case True
    define meth where "meth = (case methodArg of None \<Rightarrow> ''Original_Payment_Method'' | Some m \<Rightarrow> m)"
    obtain res r1 w1 where p: "fst (processRefundPayment env r meth w) = (res, r1, w1)"
      by (cases "fst (processRefundPayment env r meth w)") auto
    note a = processRefundPayment_amounts [OF f p]
    show ?thesis
    proof (cases res)
      case (RefundFailed x)
      then show ?thesis
        using f True p a by (simp add: processRefund_def Let_def meth_def)
    next
      case (RefundSuccess tid rid ty)
      have "refundAmounts (saveReturn
          (r1\<lparr>returnStatus := Refund_Processed,
              refund := (refund r1)\<lparr>processedBy := adminId, processedAt := Some (env_now env),
                refundMethod := Some meth, refundStatus := Some ''Completed'',
                transactionId := Some tid, refundNotes := notesArg\<rparr>,
              timestamps := (timestamps r1)\<lparr>refundProcessedAt := Some (env_now env)\<rparr>\<rparr>) w1)
        = refundAmounts w1"
        using a by (intro save_found_amounts [where returnId = returnId and r = r1]) simp_all
      then show ?thesis
        using f True p a RefundSuccess
        by (simp add: processRefund_def Let_def meth_def refundAmounts_notify)
    qed
  qed
qed

lemma createChecked_success:
  assumes "createChecked env req orderId s reason cid qty w = (SendSuccess rr msg, w')"
  shows "\<exists>order i. findOrder orderId (orderDocs w) = Some order
     \<and> find (\<lambda>i. sku i = s) (skus order) = Some i
     \<and> refundAmount (refund rr) = selling_price i * real_of_int qty
     \<and> refundAmounts w' = refundAmounts w @ [(rr_id rr, selling_price i * real_of_int qty)]"
proof -
  have noDup: "find (\<lambda>r. rr_orderId r = orderId \<and> rr_sku r = s) (returnDocs w) = None"
    using assms by (cases "find (\<lambda>r. rr_orderId r = orderId \<and> rr_sku r = s) (returnDocs w)")
      (auto simp: createChecked_def)
  obtain order where ord: "findOrder orderId (orderDocs w) = Some order"
    using assms noDup by (cases "findOrder orderId (orderDocs w)") (auto simp: createChecked_def)
  have own: "customer_userId order = Some cid"
    using assms noDup ord by (auto simp: createChecked_def split: if_splits)
  obtain i where it: "find (\<lambda>i. sku i = s) (skus order) = Some i"
    using assms noDup ord own
    by (cases "find (\<lambda>i. sku i = s) (skus order)") (auto simp: createChecked_def)
  have q: "\<not> qty > quantity i"
    using assms noDup ord own it by (auto simp: createChecked_def split: if_splits)
  define el where "el = validateReturnEligibility env order s"
  define r0 where "r0 = newReturnRequest env req orderId s reason cid qty order i el"
  define w3 where "w3 = notify [cid] ''Return Request Created''
      (saveOrder (order\<lparr>skus := map (\<lambda>i. if sku i = s then i\<lparr>return_id := Some (rr_id r0)\<rparr> else i)
          (skus order)\<rparr>) (w\<lparr>returnDocs := returnDocs w @ [r0]\<rparr>))"
  have res: "createChecked env req orderId s reason cid qty w =
      (if el_isEligible el
       then (case schedulePickup env (rr_id r0) w3 of
               None \<Rightarrow> (SendError (Message ''Failed to create return request''), w3)
             | Some w4 \<Rightarrow> (SendSuccess r0 ''Return request created successfully'', w4))
       else (SendSuccess r0 ''Return request created successfully'', w3))"
    unfolding w3_def r0_def el_def
    using noDup ord own it q
    by (simp add: createChecked_def Let_def)
  have amt: "refundAmount (refund r0) = selling_price i * real_of_int qty"
    by (simp add: r0_def newReturnRequest_def)
  have a3: "refundAmounts w3 = refundAmounts w @ [(rr_id r0, selling_price i * real_of_int qty)]"
    by (simp add: w3_def refundAmounts_notify refundAmounts_saveOrder)
      (simp add: refundAmounts_def amt)
  have "rr = r0 \<and> refundAmounts w' = refundAmounts w3"
    using assms unfolding res
    by (auto split: if_splits option.splits dest: schedulePickup_amounts)
  then show ?thesis
    using ord it amt a3 by auto
qed

lemma bankPayout_call_amounts:
  "c \<in> set (snd (bankPayout env r order w)) \<Longrightarrow>
   (\<forall>f a. c = CreatePayout f a \<longrightarrow> a = Math_round (refundAmount (refund r) * 100))
   \<and> (\<forall>p a. c \<noteq> CreateRefund p a)"
  by (auto simp add: bankPayout_def Let_def split: option.splits prod.splits)

lemma sourceRefund_call_amounts:
  "c \<in> set (snd (sourceRefund env r order payment w)) \<Longrightarrow>
   (\<forall>p a. c = CreateRefund p a \<longrightarrow> a = Math_round (refundAmount (refund r) * 100))
   \<and> (\<forall>f a. c \<noteq> CreatePayout f a)"
  by (auto simp add: sourceRefund_def Let_def split: option.splits prod.splits if_splits)

lemma processRefundPayment_calls:
  assumes "c \<in> set (snd (processRefundPayment env r meth w))"
  shows "\<exists>order payment. c \<in> set (snd (bankPayout env r order w))
           \<or> c \<in> set (snd (sourceRefund env r order payment w))"
proof (cases "findOrder (rr_orderId r) (orderDocs w)")
  case None
  then show ?thesis using assms by (simp add: processRefundPayment_def)
next
  case (Some order)
  note ord = this
  show ?thesis
  proof (cases "findPayment env order")
    case None
    then show ?thesis using assms ord by (simp add: processRefundPayment_def)
  next
    case (Some payment)
    then have "c \<in> set (snd (bankPayout env r order w))
           \<or> c \<in> set (snd (sourceRefund env r order payment w))"
      using assms ord
      by (cases "bankPayout env r order w"; cases "sourceRefund env r order payment w")
        (auto simp add: processRefundPayment_def split: if_splits option.splits)
    then show ?thesis by blast
  qed
qed

lemma processRefundPayment_call_amounts:
  assumes "c \<in> set (snd (processRefundPayment env r meth w))"
  shows "(\<forall>f a. c = CreatePayout f a \<longrightarrow> a = Math_round (refundAmount (refund r) * 100))
   \<and> (\<forall>p a. c = CreateRefund p a \<longrightarrow> a = Math_round (refundAmount (refund r) * 100))"
  using processRefundPayment_calls [OF assms] bankPayout_call_amounts sourceRefund_call_amounts
  by blast

lemma bankPayout_success_call:
  "fst (bankPayout env r order w) = Some x \<Longrightarrow>
   \<exists>f. CreatePayout f (Math_round (refundAmount (refund r) * 100))
        \<in> set (snd (bankPayout env r order w))"
  by (auto simp add: bankPayout_def Let_def split: option.splits prod.splits)

lemma sourceRefund_success_call:
  "fst (sourceRefund env r order payment w) = (RefundSuccess tid rid ty, r1, w1) \<Longrightarrow>
   ty = ''Source_Refund''
   \<and> (\<exists>p. CreateRefund p (Math_round (refundAmount (refund r) * 100))
        \<in> set (snd (sourceRefund env r order payment w)))"
  by (auto simp add: sourceRefund_def Let_def split: option.splits prod.splits if_splits)

lemma processRefundPayment_success_call:
  assumes "fst (processRefundPayment env r meth w) = (RefundSuccess tid rid ty, r1, w1)"
  shows "(ty = ''Bank_Payout''
        \<and> (\<exists>f. CreatePayout f (Math_round (refundAmount (refund r) * 100))
               \<in> set (snd (processRefundPayment env r meth w))))
     \<or> (ty = ''Source_Refund''
        \<and> (\<exists>p. CreateRefund p (Math_round (refundAmount (refund r) * 100))
               \<in> set (snd (processRefundPayment env r meth w))))"
proof -
  obtain order where ord: "findOrder (rr_orderId r) (orderDocs w) = Some order"
    using assms by (cases "findOrder (rr_orderId r) (orderDocs w)")
      (auto simp: processRefundPayment_def)
  obtain payment where pay: "findPayment env order = Some payment"
    using assms ord by (cases "findPayment env order") (auto simp: processRefundPayment_def)
  show ?thesis
  proof (cases "useBankPayout env meth payment \<and> fst (bankPayout env r order w) \<noteq> None")
    case True
    then obtain x where b: "fst (bankPayout env r order w) = Some x"
      by auto
    have e: "processRefundPayment env r meth w = (x, snd (bankPayout env r order w))"
      using ord pay True b by (simp add: processRefundPayment_bank)
    have "ty = ''Bank_Payout''"
      using bankPayout_cases [of env r order w] b e assms by auto
    then show ?thesis
      using bankPayout_success_call [OF b] e by simp
  next
    case False
    then have e: "processRefundPayment env r meth w =
        (fst (sourceRefund env r order payment w),
         (if useBankPayout env meth payment then snd (bankPayout env r order w) else [])
         @ snd (sourceRefund env r order payment w))"
      using ord pay
      by (cases "bankPayout env r order w"; cases "sourceRefund env r order payment w")
        (auto simp add: processRefundPayment_def split: option.splits)
    then have "fst (sourceRefund env r order payment w) = (RefundSuccess tid rid ty, r1, w1)"
      using assms by simp
    from sourceRefund_success_call [OF this] show ?thesis
      by (auto simp add: e)
  qed
qed

text \<open>
  Claim C10. A created return request carries the refund amount selling price times
  returned quantity (1 by default) of the order's SKU line, and it is stored with that
  amount. Validation, pickup scheduling and completion, inspection start and completion,
  refund processing, completion and notes leave the refund amount of every stored return
  request as it was. Every payout call and every refund call the processor makes is for
  \<open>Math.round(refundAmount * 100)\<close> minor units, and a successful run has made that call
  on its path.
\<close>

theorem refund_amount_fixed_at_creation:
  "(\<forall>rr msg w'.
      createReturnRequest env req w = (SendSuccess rr msg, w') \<longrightarrow>
      (\<exists>orderId s order i.
          body_orderId req = Some orderId \<and> body_sku req = Some s
          \<and> findOrder orderId (orderDocs w) = Some order
          \<and> find (\<lambda>i. sku i = s) (skus order) = Some i
          \<and> refundAmount (refund rr)
              = selling_price i * real_of_int (case body_quantity req of None \<Rightarrow> 1 | Some q \<Rightarrow> q)
          \<and> refundAmounts w' = refundAmounts w @ [(rr_id rr, refundAmount (refund rr))]))
   \<and> refundAmounts (snd (validateReturnRequest env returnId w)) = refundAmounts w
   \<and> refundAmounts (snd (exports_schedulePickup env returnId sched w)) = refundAmounts w
   \<and> refundAmounts (snd (completePickup env returnId tracking w)) = refundAmounts w
   \<and> refundAmounts (snd (startInspection env returnId staffId w)) = refundAmounts w
   \<and> refundAmounts (snd (completeInspection env returnId body w)) = refundAmounts w
   \<and> refundAmounts (snd (processRefund env returnId adminId methodArg notesArg w))
       = refundAmounts w
   \<and> refundAmounts (snd (completeReturn env returnId w)) = refundAmounts w
   \<and> refundAmounts (snd (addNote returnId noteText addedBy w)) = refundAmounts w
   \<and> (\<forall>f a. CreatePayout f a \<in> set (snd (processRefundPayment env r meth w)) \<longrightarrow>
         a = Math_round (refundAmount (refund r) * 100))
   \<and> (\<forall>p a. CreateRefund p a \<in> set (snd (processRefundPayment env r meth w)) \<longrightarrow>
         a = Math_round (refundAmount (refund r) * 100))
   \<and> (\<forall>tid rid ty r1 w1.
        fst (processRefundPayment env r meth w) = (RefundSuccess tid rid ty, r1, w1) \<longrightarrow>
        (ty = ''Bank_Payout''
           \<and> (\<exists>f. CreatePayout f (Math_round (refundAmount (refund r) * 100))
                  \<in> set (snd (processRefundPayment env r meth w))))
        \<or> (ty = ''Source_Refund''
           \<and> (\<exists>p. CreateRefund p (Math_round (refundAmount (refund r) * 100))
                  \<in> set (snd (processRefundPayment env r meth w)))))"
proof (intro conjI allI impI)
  fix rr msg w'
  assume s: "createReturnRequest env req w = (SendSuccess rr msg, w')"
  from createReturnRequest_missing_or_checked [of env req w]
  obtain orderId s' reason cid where
    b: "body_orderId req = Some orderId" "body_sku req = Some s'"
    and e: "createReturnRequest env req w =
        createChecked env req orderId s' reason cid
          (case body_quantity req of None \<Rightarrow> 1 | Some q \<Rightarrow> q) w"
    using s by auto
  have cc: "createChecked env req orderId s' reason cid
      (case body_quantity req of None \<Rightarrow> 1 | Some q \<Rightarrow> q) w = (SendSuccess rr msg, w')"
    using s e by simp
  from createChecked_success [OF cc]
  obtain order i where
    "findOrder orderId (orderDocs w) = Some order"
    "find (\<lambda>i. sku i = s') (skus order) = Some i"
    "refundAmount (refund rr)
       = selling_price i * real_of_int (case body_quantity req of None \<Rightarrow> 1 | Some q \<Rightarrow> q)"
    "refundAmounts w' = refundAmounts w
       @ [(rr_id rr, selling_price i * real_of_int (case body_quantity req of None \<Rightarrow> 1 | Some q \<Rightarrow> q))]"
    by blast
  then show "\<exists>orderId s order i.
          body_orderId req = Some orderId \<and> body_sku req = Some s
          \<and> findOrder orderId (orderDocs w) = Some order
          \<and> find (\<lambda>i. sku i = s) (skus order) = Some i
          \<and> refundAmount (refund rr)
              = selling_price i * real_of_int (case body_quantity req of None \<Rightarrow> 1 | Some q \<Rightarrow> q)
          \<and> refundAmounts w' = refundAmounts w @ [(rr_id rr, refundAmount (refund rr))]"
    using b by auto
next
  show "refundAmounts (snd (validateReturnRequest env returnId w)) = refundAmounts w"
    by (rule validateReturnRequest_amounts)
  show "refundAmounts (snd (exports_schedulePickup env returnId sched w)) = refundAmounts w"
    by (rule exports_schedulePickup_amounts)
  show "refundAmounts (snd (completePickup env returnId tracking w)) = refundAmounts w"
    by (rule completePickup_amounts)
  show "refundAmounts (snd (startInspection env returnId staffId w)) = refundAmounts w"
    by (rule startInspection_amounts)
  show "refundAmounts (snd (completeInspection env returnId body w)) = refundAmounts w"
    by (rule completeInspection_amounts)
  show "refundAmounts (snd (processRefund env returnId adminId methodArg notesArg w))
       = refundAmounts w"
    by (rule processRefund_amounts)
  show "refundAmounts (snd (completeReturn env returnId w)) = refundAmounts w"
    by (rule completeReturn_amounts)
  show "refundAmounts (snd (addNote returnId noteText addedBy w)) = refundAmounts w"
    by (rule addNote_amounts)
next
  fix f a
  assume "CreatePayout f a \<in> set (snd (processRefundPayment env r meth w))"
  from processRefundPayment_call_amounts [OF this]
  show "a = Math_round (refundAmount (refund r) * 100)"
    by simp
next
  fix p a
  assume "CreateRefund p a \<in> set (snd (processRefundPayment env r meth w))"
  from processRefundPayment_call_amounts [OF this]
  show "a = Math_round (refundAmount (refund r) * 100)"
    by simp
next
  fix tid rid ty r1 w1
  assume "fst (processRefundPayment env r meth w) = (RefundSuccess tid rid ty, r1, w1)"
  then show "(ty = ''Bank_Payout''
           \<and> (\<exists>f. CreatePayout f (Math_round (refundAmount (refund r) * 100))
                  \<in> set (snd (processRefundPayment env r meth w))))
        \<or> (ty = ''Source_Refund''
           \<and> (\<exists>p. CreateRefund p (Math_round (refundAmount (refund r) * 100))
                  \<in> set (snd (processRefundPayment env r meth w))))"
    by (rule processRefundPayment_success_call)
qed

theorem refund_amount_fixed_at_creation_witness:
  "(\<exists>rr msg. fst (createReturnRequest sampleEnv sampleCreate (emptyWorld 0)) = SendSuccess rr msg
       \<and> refundAmount (refund rr) = 150 * 2)
   \<and> refundAmounts (snd (createReturnRequest sampleEnv sampleCreate (emptyWorld 0))) = [(11, 300)]
   \<and> refundAmounts (snd (processRefund sampleEnv 11 (Some 9) None None (sampleWorld Approved)))
       = [(11, 300)]
   \<and> Math_round (refundAmount (refund (sampleReturn Approved)) * 100) = 30000
   \<and> CreatePayout ''fa_1'' 30000 \<in> set (snd (processRefundPayment sampleEnv
        (sampleReturn Approved) ''Bank_Account'' (sampleWorld Approved)))
   \<and> CreateRefund ''pay_1'' 30000 \<in> set (snd (processRefundPayment sampleEnv
        (sampleReturn Approved) ''Bank_Account'' (sampleWorld Approved)))"
proof -
  note t = refund_amount_fixed_at_creation [where env = sampleEnv and req = sampleCreate
      and w = "emptyWorld 0"]
  note u = refund_amount_fixed_at_creation [where env = sampleEnv and w = "sampleWorld Approved"
      and returnId = 11 and adminId = "Some 9" and methodArg = None and notesArg = None
      and r = "sampleReturn Approved" and meth = "''Bank_Account''"]
  have "\<exists>rr msg. fst (createReturnRequest sampleEnv sampleCreate (emptyWorld 0))
      = SendSuccess rr msg"
    by (simp add: createReturnRequest_def createChecked_def sampleCreate_def emptyWorld_def
        sampleEnv_def deliveredOrder_def orElse_def findOrder_def validateReturnEligibility_def
        addDays_def Let_def)
  then obtain rr msg where
    s: "createReturnRequest sampleEnv sampleCreate (emptyWorld 0)
      = (SendSuccess rr msg, snd (createReturnRequest sampleEnv sampleCreate (emptyWorld 0)))"
    by (metis prod.collapse)
  from t [THEN conjunct1, rule_format, OF s]
  obtain orderId s' order i where
    c: "body_orderId sampleCreate = Some orderId" "body_sku sampleCreate = Some s'"
      "findOrder orderId (orderDocs (emptyWorld 0)) = Some order"
      "find (\<lambda>i. sku i = s') (skus order) = Some i"
      "refundAmount (refund rr)
        = selling_price i * real_of_int (case body_quantity sampleCreate of None \<Rightarrow> 1 | Some q \<Rightarrow> q)"
      "refundAmounts (snd (createReturnRequest sampleEnv sampleCreate (emptyWorld 0)))
        = refundAmounts (emptyWorld 0) @ [(rr_id rr, refundAmount (refund rr))]"
    by blast
  have o: "orderId = 1" "s' = ''A''"
    using c(1,2) by (simp_all add: sampleCreate_def)
  have "order = deliveredOrder 0"
    using c(3) o by (simp add: emptyWorld_def findOrder_def deliveredOrder_def)
  then have "selling_price i = 150"
    using c(4) o by (auto simp add: deliveredOrder_def)
  then have amt: "refundAmount (refund rr) = 150 * 2"
    using c(5) by (simp add: sampleCreate_def)
  have id: "rr_id rr = 11"
  proof -
    have "fst (createReturnRequest sampleEnv sampleCreate (emptyWorld 0)) = SendSuccess rr msg"
      using s by (metis fst_conv)
    then show ?thesis
      by (simp add: createReturnRequest_def createChecked_def sampleCreate_def emptyWorld_def
          sampleEnv_def deliveredOrder_def orElse_def findOrder_def
          validateReturnEligibility_def addDays_def Let_def newReturnRequest_def
          split: if_splits)
        (auto simp add: productReturnable_def)
  qed
  have a1: "refundAmounts (snd (createReturnRequest sampleEnv sampleCreate (emptyWorld 0)))
      = [(11, 300)]"
    using c(6) amt id by (simp add: refundAmounts_def emptyWorld_def)
  have a2: "refundAmounts (snd (processRefund sampleEnv 11 (Some 9) None None
      (sampleWorld Approved))) = [(11, 300)]"
    using u [THEN conjunct2, THEN conjunct2, THEN conjunct2, THEN conjunct2, THEN conjunct2,
        THEN conjunct2, THEN conjunct1]
    by (simp add: refundAmounts_def sampleWorld_def sampleReturn_def)
  have calls: "snd (processRefundPayment sampleEnv (sampleReturn Approved) ''Bank_Account''
        (sampleWorld Approved))
       = [CreateContact, CreateFundAccount ''cont_1'', CreatePayout ''fa_1'' 30000,
          FetchPayment ''pay_1'', CreateRefund ''pay_1'' 30000]"
    by (simp add: refund_eval)
  have m: "Math_round (refundAmount (refund (sampleReturn Approved)) * 100) = 30000"
    by (simp add: sampleReturn_def Math_round_def)
  show ?thesis
    using s amt a1 a2 m calls by (metis (no_types, lifting) fst_conv list.set_intros(1,2))
qed

end
